theory Spec2Isabelle
  imports Complex_Main
begin

text \<open>
  A model of the orbit camera controller in \<^verbatim>\<open>src/OrbitControls.js\<close>: its state, its
  \<^verbatim>\<open>update\<close> step and its event handlers, followed by the properties its specification
  states about them.
\<close>

section \<open>Numbers\<close>

text \<open>
  The controller of \<^verbatim>\<open>src/OrbitControls.js\<close> computes with JavaScript numbers. They are
  modelled as real numbers: rounding, overflow, signed zeros and NaN are outside the model.
  So is a division by zero, which gives an infinity or NaN in JavaScript and \<open>0\<close> here: a
  property that rests on a quotient assumes its divisor positive.
  Two settings of the controller are infinite by default, so a lower limit is a real or
  \<^verbatim>\<open>-Infinity\<close> and an upper limit is a real or \<^verbatim>\<open>Infinity\<close>.
\<close>

datatype lower = NegInfinity | Lower real

datatype upper = Upper real | Infinity

text \<open>\<^verbatim>\<open>Math.min(hi, x)\<close> for an upper limit and a number.\<close>

fun Math_min_upper :: "upper \<Rightarrow> real \<Rightarrow> real" where
  "Math_min_upper Infinity v = v"
| "Math_min_upper (Upper b) v = min b v"

text \<open>\<^verbatim>\<open>Math.atan2(y, x)\<close>, the angle of the point \<open>(x, y)\<close> in \<open>(-\<pi>, \<pi>]\<close>.\<close>

definition Math_atan2 :: "real \<Rightarrow> real \<Rightarrow> real" where
  "Math_atan2 b a =
     (if 0 < a then arctan (b / a)
      else if a < 0 \<and> 0 \<le> b then arctan (b / a) + pi
      else if a < 0 then arctan (b / a) - pi
      else if 0 < b then pi / 2
      else if b < 0 then - (pi / 2)
      else 0)"

text \<open>\<^verbatim>\<open>Math.pow(b, e)\<close> for a base \<open>b > 0\<close>, the only bases the theorems below use.\<close>

definition Math_pow :: "real \<Rightarrow> real \<Rightarrow> real" where
  "Math_pow b e = b powr e"

section \<open>The rendering library's value classes\<close>

text \<open>
  \<^verbatim>\<open>THREE.Vector2\<close>, \<^verbatim>\<open>THREE.Vector3\<close>, \<^verbatim>\<open>THREE.Quaternion\<close> and \<^verbatim>\<open>THREE.Spherical\<close> belong to the
  rendering library the controller imports, not to the repository. The methods the controller
  calls are written out here as the library defines them.
\<close>

datatype vector2 = Vector2 (x2: real) (y2: real)

datatype vector3 = Vector3 (x3: real) (y3: real) (z3: real)

datatype quaternion = Quaternion (qx: real) (qy: real) (qz: real) (qw: real)

text \<open>The constructor's argument order: \<^verbatim>\<open>new Spherical(radius, phi, theta)\<close>.\<close>

datatype spherical = Spherical (radius: real) (phi: real) (theta: real)

definition Vector2_subVectors :: "vector2 \<Rightarrow> vector2 \<Rightarrow> vector2" where
  "Vector2_subVectors a b = Vector2 (x2 a - x2 b) (y2 a - y2 b)"

definition Vector2_multiplyScalar :: "vector2 \<Rightarrow> real \<Rightarrow> vector2" where
  "Vector2_multiplyScalar v k = Vector2 (x2 v * k) (y2 v * k)"

definition Vector3_add :: "vector3 \<Rightarrow> vector3 \<Rightarrow> vector3" where
  "Vector3_add a b = Vector3 (x3 a + x3 b) (y3 a + y3 b) (z3 a + z3 b)"

definition Vector3_sub :: "vector3 \<Rightarrow> vector3 \<Rightarrow> vector3" where
  "Vector3_sub a b = Vector3 (x3 a - x3 b) (y3 a - y3 b) (z3 a - z3 b)"

definition Vector3_multiplyScalar :: "vector3 \<Rightarrow> real \<Rightarrow> vector3" where
  "Vector3_multiplyScalar v k = Vector3 (x3 v * k) (y3 v * k) (z3 v * k)"

definition Vector3_length :: "vector3 \<Rightarrow> real" where
  "Vector3_length v = sqrt (x3 v * x3 v + y3 v * y3 v + z3 v * z3 v)"

definition Vector3_distanceToSquared :: "vector3 \<Rightarrow> vector3 \<Rightarrow> real" where
  "Vector3_distanceToSquared a b =
     (let dx = x3 a - x3 b; dy = y3 a - y3 b; dz = z3 a - z3 b
      in dx * dx + dy * dy + dz * dz)"

definition Vector3_distanceTo :: "vector3 \<Rightarrow> vector3 \<Rightarrow> real" where
  "Vector3_distanceTo a b = sqrt (Vector3_distanceToSquared a b)"

text \<open>
  \<^verbatim>\<open>clampLength(min, max)\<close>: \<^verbatim>\<open>divideScalar(length || 1)\<close>, then
  \<^verbatim>\<open>multiplyScalar(Math.max(min, Math.min(max, length)))\<close>.
\<close>

definition Vector3_clampLength :: "vector3 \<Rightarrow> real \<Rightarrow> upper \<Rightarrow> vector3" where
  "Vector3_clampLength v mn mx =
     (let len = Vector3_length v
      in Vector3_multiplyScalar
           (Vector3_multiplyScalar v (1 / (if len = 0 then 1 else len)))
           (max mn (Math_min_upper mx len)))"

text \<open>
  \<^verbatim>\<open>Quaternion.setFromUnitVectors(vFrom, vTo)\<close> with its closing \<^verbatim>\<open>normalize()\<close>;
  \<^verbatim>\<open>Number.EPSILON\<close> is 2 to the power -52.
\<close>

definition Quaternion_length :: "quaternion \<Rightarrow> real" where
  "Quaternion_length q = sqrt (qx q * qx q + qy q * qy q + qz q * qz q + qw q * qw q)"

definition Quaternion_normalize :: "quaternion \<Rightarrow> quaternion" where
  "Quaternion_normalize q =
     (let l = Quaternion_length q
      in if l = 0 then Quaternion 0 0 0 1
         else Quaternion (qx q * (1 / l)) (qy q * (1 / l)) (qz q * (1 / l)) (qw q * (1 / l)))"

definition Number_EPSILON :: real where
  "Number_EPSILON = 1 / 2 ^ 52"

definition Quaternion_setFromUnitVectors :: "vector3 \<Rightarrow> vector3 \<Rightarrow> quaternion" where
  "Quaternion_setFromUnitVectors vFrom vTo =
     (let r = x3 vFrom * x3 vTo + y3 vFrom * y3 vTo + z3 vFrom * z3 vTo + 1
      in Quaternion_normalize
           (if r < Number_EPSILON then
              (if \<bar>x3 vFrom\<bar> > \<bar>z3 vFrom\<bar>
               then Quaternion (- y3 vFrom) (x3 vFrom) 0 0
               else Quaternion 0 (- z3 vFrom) (y3 vFrom) 0)
            else Quaternion (y3 vFrom * z3 vTo - z3 vFrom * y3 vTo)
                            (z3 vFrom * x3 vTo - x3 vFrom * z3 vTo)
                            (x3 vFrom * y3 vTo - y3 vFrom * x3 vTo) r))"

text \<open>\<^verbatim>\<open>invert()\<close> is the conjugate: the quaternion is taken to have unit length.\<close>

definition Quaternion_invert :: "quaternion \<Rightarrow> quaternion" where
  "Quaternion_invert q = Quaternion (- qx q) (- qy q) (- qz q) (qw q)"

definition Quaternion_dot :: "quaternion \<Rightarrow> quaternion \<Rightarrow> real" where
  "Quaternion_dot a b = qx a * qx b + qy a * qy b + qz a * qz b + qw a * qw b"

text \<open>
  \<^verbatim>\<open>Vector3.applyQuaternion(q)\<close>: \<open>t = 2 (q \<times> v)\<close>, then \<open>v + w t + q \<times> t\<close>. For a quaternion of
  unit length, the only kind \<^verbatim>\<open>update\<close> builds, this is the rotation of \<open>v\<close> by \<open>q\<close>.
\<close>

definition Vector3_applyQuaternion :: "vector3 \<Rightarrow> quaternion \<Rightarrow> vector3" where
  "Vector3_applyQuaternion v q =
     (let tx = 2 * (qy q * z3 v - qz q * y3 v);
          ty = 2 * (qz q * x3 v - qx q * z3 v);
          tz = 2 * (qx q * y3 v - qy q * x3 v)
      in Vector3 (x3 v + qw q * tx + qy q * tz - qz q * ty)
                 (y3 v + qw q * ty + qz q * tx - qx q * tz)
                 (z3 v + qw q * tz + qx q * ty - qy q * tx))"

text \<open>\<^verbatim>\<open>Spherical.setFromVector3(v)\<close>, through \<^verbatim>\<open>setFromCartesianCoords\<close>.\<close>

definition Spherical_setFromVector3 :: "vector3 \<Rightarrow> spherical" where
  "Spherical_setFromVector3 v =
     (let r = sqrt (x3 v * x3 v + y3 v * y3 v + z3 v * z3 v)
      in if r = 0 then Spherical r 0 0
         else Spherical r (arccos (max (- 1) (min 1 (y3 v / r)))) (Math_atan2 (x3 v) (z3 v)))"

text \<open>\<^verbatim>\<open>Spherical.makeSafe()\<close> keeps \<open>phi\<close> in \<open>[EPS, \<pi> - EPS]\<close> with its own \<open>EPS = 0.000001\<close>.\<close>

definition Spherical_makeSafe :: "spherical \<Rightarrow> spherical" where
  "Spherical_makeSafe s =
     Spherical (radius s) (max 0.000001 (min (pi - 0.000001) (phi s))) (theta s)"

text \<open>\<^verbatim>\<open>Vector3.setFromSpherical(s)\<close>, through \<^verbatim>\<open>setFromSphericalCoords\<close>.\<close>

definition Vector3_setFromSpherical :: "spherical \<Rightarrow> vector3" where
  "Vector3_setFromSpherical s =
     (let sinPhiRadius = sin (phi s) * radius s
      in Vector3 (sinPhiRadius * sin (theta s)) (cos (phi s) * radius s)
                 (sinPhiRadius * cos (theta s)))"

text \<open>
  \<^verbatim>\<open>Matrix4\<close>, as far as \<^verbatim>\<open>Vector3.setFromMatrixColumn(m, index)\<close> reads it: the upper three
  entries of each of the four columns.
\<close>

datatype matrix4 = Matrix4 (column0: vector3) (column1: vector3) (column2: vector3) (column3: vector3)

definition Vector3_setFromMatrixColumn :: "matrix4 \<Rightarrow> nat \<Rightarrow> vector3" where
  "Vector3_setFromMatrixColumn m index =
     (if index = 0 then column0 m else if index = 1 then column1 m
      else if index = 2 then column2 m else column3 m)"

section \<open>The collaborators: camera, DOM element, events\<close>

text \<open>
  The camera is an object of the rendering library. The controller reads its \<open>position\<close>,
  \<open>up\<close>, \<open>matrix\<close> and \<open>fov\<close>, writes its \<open>position\<close> and calls its method
  \<^verbatim>\<open>lookAt(target)\<close>. That method belongs to the library: it is a field of the object here.
  From the camera's position, up vector and present orientation and from the target it yields
  the new orientation and the refreshed local matrix; it writes nothing else.
\<close>

record camera =
  position :: vector3
  up :: vector3
  quaternion :: quaternion
  matrix :: matrix4
  fov :: real
  lookAt :: "vector3 \<Rightarrow> vector3 \<Rightarrow> quaternion \<Rightarrow> vector3 \<Rightarrow> quaternion \<times> matrix4"

text \<open>
  The events the handlers receive. \<^verbatim>\<open>onPointerUp\<close> builds a placeholder with the three fields
  of \<open>touch_event\<close> only, so the touch handlers are typed on that shape and a full pointer
  event extends it. Of a wheel event the handlers read \<open>deltaY\<close>, \<open>deltaMode\<close> and \<open>ctrlKey\<close>.
\<close>

record touch_event =
  pointerId :: nat
  pageX :: real
  pageY :: real

record pointer_event = touch_event +
  pointerType :: string
  clientX :: real
  clientY :: real
  button :: int
  shiftKey :: bool

record wheel_event =
  deltaY :: real
  deltaMode :: nat
  ctrlKey :: bool

record keyboard_event =
  code :: string
  key_shiftKey :: bool

section \<open>Constants of the controller\<close>

datatype notification = Change | Start | End

definition TWO_PI :: real where
  "TWO_PI = 2 * pi"

definition KEYS_LEFT :: string where "KEYS_LEFT = ''ArrowLeft''"
definition KEYS_UP :: string where "KEYS_UP = ''ArrowUp''"
definition KEYS_RIGHT :: string where "KEYS_RIGHT = ''ArrowRight''"
definition KEYS_BOTTOM :: string where "KEYS_BOTTOM = ''ArrowDown''"

text \<open>\<^verbatim>\<open>THREE.MOUSE\<close> and \<^verbatim>\<open>THREE.TOUCH\<close>, and the controller's fixed assignment of them.\<close>

datatype THREE_MOUSE = MOUSE_ROTATE | MOUSE_DOLLY | MOUSE_PAN

datatype THREE_TOUCH = T_ROTATE | T_PAN | T_DOLLY_PAN | T_DOLLY_ROTATE

definition MOUSE_BUTTONS_LEFT :: THREE_MOUSE where "MOUSE_BUTTONS_LEFT = MOUSE_ROTATE"
definition MOUSE_BUTTONS_MIDDLE :: THREE_MOUSE where "MOUSE_BUTTONS_MIDDLE = MOUSE_DOLLY"
definition MOUSE_BUTTONS_RIGHT :: THREE_MOUSE where "MOUSE_BUTTONS_RIGHT = MOUSE_PAN"

definition TOUCHES_ONE :: THREE_TOUCH where "TOUCHES_ONE = T_ROTATE"
definition TOUCHES_TWO :: THREE_TOUCH where "TOUCHES_TWO = T_DOLLY_PAN"

definition EPS :: real where
  "EPS = 0.000001"

definition MIN_TARGET_HEIGHT :: real where
  "MIN_TARGET_HEIGHT = 0.1"

datatype STATE = NONE | ROTATE | DOLLY | PAN
  | TOUCH_ROTATE | TOUCH_PAN | TOUCH_DOLLY_PAN | TOUCH_DOLLY_ROTATE

section \<open>The controller object\<close>

text \<open>
  One record holds the public fields of \<^verbatim>\<open>this\<close> and the variables the constructor's closures
  capture. \<open>enableDamping\<close> is a property the demo pages assign after construction; the
  constructor does not create it (\<open>None\<close>), so it comes last. \<open>clientHeight\<close> is
  \<^verbatim>\<open>this.domElement.clientHeight\<close>. \<open>listening\<close> says whether the \<^verbatim>\<open>pointermove\<close> and \<^verbatim>\<open>pointerup\<close>
  listeners are attached, and \<open>dispatched\<close> is the sequence of notifications handed to
  \<^verbatim>\<open>dispatchEvent\<close> so far. Pointer capture and \<^verbatim>\<open>preventDefault\<close> act on the browser only and
  are left out.
\<close>

record controls =
  camera :: camera
  clientHeight :: nat
  target :: vector3
  cursor :: vector3
  minDistance :: real
  maxDistance :: upper
  minTargetRadius :: real
  maxTargetRadius :: upper
  minPolarAngle :: real
  maxPolarAngle :: real
  minAzimuthAngle :: lower
  maxAzimuthAngle :: upper
  zoomSpeed :: real
  rotateSpeed :: real
  panSpeed :: real
  keyPanSpeed :: real
  state :: STATE
  spherical :: spherical
  sphericalDelta :: spherical
  scale :: real
  panOffset :: vector3
  rotateStart :: vector2
  rotateEnd :: vector2
  rotateDelta :: vector2
  panStart :: vector2
  panEnd :: vector2
  panDelta :: vector2
  dollyStart :: vector2
  dollyEnd :: vector2
  dollyDelta :: vector2
  pointers :: "nat list"
  pointerPositions :: "nat \<rightharpoonup> vector2"
  controlActive :: bool
  listening :: bool
  dispatched :: "notification list"
  enableDamping :: "bool option"

definition dispatchEvent :: "controls \<Rightarrow> notification \<Rightarrow> controls" where
  "dispatchEvent this ev = this\<lparr>dispatched := dispatched this @ [ev]\<rparr>"

definition getPolarAngle :: "controls \<Rightarrow> real" where
  "getPolarAngle this = phi (spherical this)"

definition getAzimuthalAngle :: "controls \<Rightarrow> real" where
  "getAzimuthalAngle this = theta (spherical this)"

text \<open>
  \<^verbatim>\<open>getDistance()\<close> does not read the stored radius: it recomputes the distance of the camera
  position from the target.
\<close>

definition getDistance :: "controls \<Rightarrow> real" where
  "getDistance this = Vector3_distanceTo (position (camera this)) (target this)"

definition clampDistance :: "controls \<Rightarrow> real \<Rightarrow> real" where
  "clampDistance this d = max (minDistance this) (Math_min_upper (maxDistance this) d)"

text \<open>
  \<^verbatim>\<open>update\<close>, statement by statement. \<open>lastPosition\<close>, \<open>lastQuaternion\<close> and
  \<open>lastTargetPosition\<close> are created inside the function, so each call starts from the zero
  vector and the identity quaternion.
\<close>

definition update :: "controls \<Rightarrow> controls" where
  "update this =
     (let quat = Quaternion_setFromUnitVectors (up (camera this)) (Vector3 0 1 0);
          quatInverse = Quaternion_invert quat;
          lastPosition = Vector3 0 0 0;
          lastQuaternion = Quaternion 0 0 0 1;
          lastTargetPosition = Vector3 0 0 0;
          offset = Vector3_applyQuaternion
                     (Vector3_sub (position (camera this)) (target this)) quat;
          sph0 = Spherical_setFromVector3 offset;
          theta1 = theta sph0 + theta (sphericalDelta this);
          phi1 = phi sph0 + phi (sphericalDelta this);
          theta2 =
            (case (minAzimuthAngle this, maxAzimuthAngle this) of
               (Lower min0, Upper max0) \<Rightarrow>
                 (let mn = (if min0 < - pi then min0 + TWO_PI
                            else if min0 > pi then min0 - TWO_PI else min0);
                      mx = (if max0 < - pi then max0 + TWO_PI
                            else if max0 > pi then max0 - TWO_PI else max0)
                  in if mn \<le> mx then max mn (min mx theta1)
                     else if theta1 > (mn + mx) / 2 then max mn theta1
                     else min mx theta1)
             | _ \<Rightarrow> theta1);
          phi2 = max (minPolarAngle this) (min (maxPolarAngle this) phi1);
          sph1 = Spherical_makeSafe (Spherical (radius sph0) phi2 theta2);
          target1 = Vector3_add (target this) (panOffset this);
          target2 = Vector3_sub target1 (cursor this);
          target3 = Vector3_clampLength target2 (minTargetRadius this) (maxTargetRadius this);
          target4 = Vector3_add target3 (cursor this);
          target5 = Vector3 (x3 target4) (max (y3 target4) MIN_TARGET_HEIGHT) (z3 target4);
          prevRadius = radius sph1;
          sph2 = Spherical (clampDistance this (radius sph1 * scale this)) (phi sph1) (theta sph1);
          offset1 = Vector3_applyQuaternion (Vector3_setFromSpherical sph2) quatInverse;
          position1 = Vector3_add target5 offset1;
          looked = lookAt (camera this) position1 (up (camera this))
                     (quaternion (camera this)) target5;
          camera1 = (camera this)\<lparr>position := position1, quaternion := fst looked,
                      matrix := snd looked\<rparr>;
          this1 = this\<lparr>camera := camera1, target := target5, spherical := sph2,
                    sphericalDelta := Spherical 0 0 0, panOffset := Vector3 0 0 0, scale := 1\<rparr>
      in if prevRadius \<noteq> radius sph2
            \<or> Vector3_distanceToSquared lastPosition (position (camera this1)) > EPS
            \<or> 8 * (1 - Quaternion_dot lastQuaternion (quaternion (camera this1))) > EPS
            \<or> Vector3_distanceToSquared lastTargetPosition (target this1) > EPS
         then dispatchEvent this1 Change
         else this1)"

text \<open>
  Names for the values the local variables of \<^verbatim>\<open>update\<close> hold, as functions of the state the
  call starts from. Each has the name of the variable of the definition above, and
  the lemma \<open>update_unfold\<close> below shows that they are those values.
\<close>

definition update_quat :: "controls \<Rightarrow> quaternion" where
  "update_quat this = Quaternion_setFromUnitVectors (up (camera this)) (Vector3 0 1 0)"

definition update_offset :: "controls \<Rightarrow> vector3" where
  "update_offset this =
     Vector3_applyQuaternion (Vector3_sub (position (camera this)) (target this)) (update_quat this)"

definition update_theta1 :: "controls \<Rightarrow> real" where
  "update_theta1 this =
     theta (Spherical_setFromVector3 (update_offset this)) + theta (sphericalDelta this)"

definition update_phi1 :: "controls \<Rightarrow> real" where
  "update_phi1 this =
     phi (Spherical_setFromVector3 (update_offset this)) + phi (sphericalDelta this)"

definition update_theta2 :: "controls \<Rightarrow> real" where
  "update_theta2 this =
     (case (minAzimuthAngle this, maxAzimuthAngle this) of
        (Lower min0, Upper max0) \<Rightarrow>
          (let mn = (if min0 < - pi then min0 + TWO_PI
                     else if min0 > pi then min0 - TWO_PI else min0);
               mx = (if max0 < - pi then max0 + TWO_PI
                     else if max0 > pi then max0 - TWO_PI else max0)
           in if mn \<le> mx then max mn (min mx (update_theta1 this))
              else if update_theta1 this > (mn + mx) / 2 then max mn (update_theta1 this)
              else min mx (update_theta1 this))
      | _ \<Rightarrow> update_theta1 this)"

definition update_phi2 :: "controls \<Rightarrow> real" where
  "update_phi2 this = max (minPolarAngle this) (min (maxPolarAngle this) (update_phi1 this))"

definition update_sph1 :: "controls \<Rightarrow> spherical" where
  "update_sph1 this =
     Spherical_makeSafe
       (Spherical (radius (Spherical_setFromVector3 (update_offset this)))
          (update_phi2 this) (update_theta2 this))"

definition update_target5 :: "controls \<Rightarrow> vector3" where
  "update_target5 this =
     (let target1 = Vector3_add (target this) (panOffset this);
          target2 = Vector3_sub target1 (cursor this);
          target3 = Vector3_clampLength target2 (minTargetRadius this) (maxTargetRadius this);
          target4 = Vector3_add target3 (cursor this)
      in Vector3 (x3 target4) (max (y3 target4) MIN_TARGET_HEIGHT) (z3 target4))"

definition update_sph2 :: "controls \<Rightarrow> spherical" where
  "update_sph2 this =
     Spherical (clampDistance this (radius (update_sph1 this) * scale this))
       (phi (update_sph1 this)) (theta (update_sph1 this))"

definition update_position1 :: "controls \<Rightarrow> vector3" where
  "update_position1 this =
     Vector3_add (update_target5 this)
       (Vector3_applyQuaternion (Vector3_setFromSpherical (update_sph2 this))
          (Quaternion_invert (update_quat this)))"

definition update_camera1 :: "controls \<Rightarrow> camera" where
  "update_camera1 this =
     (let looked = lookAt (camera this) (update_position1 this) (up (camera this))
                     (quaternion (camera this)) (update_target5 this)
      in (camera this)\<lparr>position := update_position1 this, quaternion := fst looked,
           matrix := snd looked\<rparr>)"

section \<open>Gesture arithmetic\<close>

definition getZoomScale :: "controls \<Rightarrow> real \<Rightarrow> real" where
  "getZoomScale this delta = Math_pow 0.95 (zoomSpeed this * \<bar>delta * 0.01\<bar>)"

definition rotateLeft :: "controls \<Rightarrow> real \<Rightarrow> controls" where
  "rotateLeft this angle =
     this\<lparr>sphericalDelta := Spherical (radius (sphericalDelta this)) (phi (sphericalDelta this))
                                (theta (sphericalDelta this) - angle)\<rparr>"

definition rotateUp :: "controls \<Rightarrow> real \<Rightarrow> controls" where
  "rotateUp this angle =
     this\<lparr>sphericalDelta := Spherical (radius (sphericalDelta this))
                                (phi (sphericalDelta this) - angle) (theta (sphericalDelta this))\<rparr>"

definition panLeft :: "controls \<Rightarrow> real \<Rightarrow> matrix4 \<Rightarrow> controls" where
  "panLeft this distance cameraMatrix =
     (let v = Vector3_setFromMatrixColumn cameraMatrix 0;
          v1 = Vector3_multiplyScalar v (- distance)
      in this\<lparr>panOffset := Vector3_add (panOffset this) v1\<rparr>)"

definition panUp :: "controls \<Rightarrow> real \<Rightarrow> matrix4 \<Rightarrow> controls" where
  "panUp this distance cameraMatrix =
     (let v = Vector3_setFromMatrixColumn cameraMatrix 1;
          v1 = Vector3_multiplyScalar v distance
      in this\<lparr>panOffset := Vector3_add (panOffset this) v1\<rparr>)"

text \<open>\<^verbatim>\<open>pan(deltaX, deltaY)\<close>; the parameters are \<open>dX\<close> and \<open>dY\<close> here.\<close>

definition pan :: "controls \<Rightarrow> real \<Rightarrow> real \<Rightarrow> controls" where
  "pan this dX dY =
     (let offset = Vector3_sub (position (camera this)) (target this);
          targetDistance = Vector3_length offset;
          targetDistance1 = targetDistance * tan ((fov (camera this) / 2) * pi / 180);
          this1 = panLeft this (2 * dX * targetDistance1 / real (clientHeight this))
                    (matrix (camera this))
      in panUp this1 (2 * dY * targetDistance1 / real (clientHeight this1))
           (matrix (camera this1)))"

definition dollyOut :: "controls \<Rightarrow> real \<Rightarrow> controls" where
  "dollyOut this dollyScale = this\<lparr>scale := scale this / dollyScale\<rparr>"

definition dollyIn :: "controls \<Rightarrow> real \<Rightarrow> controls" where
  "dollyIn this dollyScale = this\<lparr>scale := scale this * dollyScale\<rparr>"

section \<open>Event callbacks: mouse, wheel, keyboard\<close>

definition handleMouseDownRotate :: "controls \<Rightarrow> pointer_event \<Rightarrow> controls" where
  "handleMouseDownRotate this event = this\<lparr>rotateStart := Vector2 (clientX event) (clientY event)\<rparr>"

definition handleMouseDownDolly :: "controls \<Rightarrow> pointer_event \<Rightarrow> controls" where
  "handleMouseDownDolly this event = this\<lparr>dollyStart := Vector2 (clientX event) (clientY event)\<rparr>"

definition handleMouseDownPan :: "controls \<Rightarrow> pointer_event \<Rightarrow> controls" where
  "handleMouseDownPan this event = this\<lparr>panStart := Vector2 (clientX event) (clientY event)\<rparr>"

text \<open>
  Each of the four callbacks below ends with \<^verbatim>\<open>update()\<close>. The statements before that call
  are a definition of their own (suffix \<open>_pending\<close>): they leave the deltas that
  \<^verbatim>\<open>update()\<close> then consumes.
\<close>

definition handleMouseMoveRotate_pending :: "controls \<Rightarrow> pointer_event \<Rightarrow> controls" where
  "handleMouseMoveRotate_pending this event =
     (let this1 = this\<lparr>rotateEnd := Vector2 (clientX event) (clientY event)\<rparr>;
          this2 = this1\<lparr>rotateDelta := Vector2_multiplyScalar
                     (Vector2_subVectors (rotateEnd this1) (rotateStart this1)) (rotateSpeed this1)\<rparr>;
          this3 = rotateLeft this2 (TWO_PI * x2 (rotateDelta this2) / real (clientHeight this2));
          this4 = rotateUp this3 (TWO_PI * y2 (rotateDelta this3) / real (clientHeight this3))
      in this4\<lparr>rotateStart := rotateEnd this4\<rparr>)"

definition handleMouseMoveRotate :: "controls \<Rightarrow> pointer_event \<Rightarrow> controls" where
  "handleMouseMoveRotate this event = update (handleMouseMoveRotate_pending this event)"

definition handleMouseMoveDolly_pending :: "controls \<Rightarrow> pointer_event \<Rightarrow> controls" where
  "handleMouseMoveDolly_pending this event =
     (let this1 = this\<lparr>dollyEnd := Vector2 (clientX event) (clientY event)\<rparr>;
          this2 = this1\<lparr>dollyDelta := Vector2_subVectors (dollyEnd this1) (dollyStart this1)\<rparr>;
          this3 = (if y2 (dollyDelta this2) > 0
                   then dollyOut this2 (getZoomScale this2 (y2 (dollyDelta this2)))
                   else if y2 (dollyDelta this2) < 0
                   then dollyIn this2 (getZoomScale this2 (y2 (dollyDelta this2)))
                   else this2)
      in this3\<lparr>dollyStart := dollyEnd this3\<rparr>)"

definition handleMouseMoveDolly :: "controls \<Rightarrow> pointer_event \<Rightarrow> controls" where
  "handleMouseMoveDolly this event = update (handleMouseMoveDolly_pending this event)"

definition handleMouseMovePan_pending :: "controls \<Rightarrow> pointer_event \<Rightarrow> controls" where
  "handleMouseMovePan_pending this event =
     (let this1 = this\<lparr>panEnd := Vector2 (clientX event) (clientY event)\<rparr>;
          this2 = this1\<lparr>panDelta := Vector2_multiplyScalar
                     (Vector2_subVectors (panEnd this1) (panStart this1)) (panSpeed this1)\<rparr>;
          this3 = pan this2 (x2 (panDelta this2)) (y2 (panDelta this2))
      in this3\<lparr>panStart := panEnd this3\<rparr>)"

definition handleMouseMovePan :: "controls \<Rightarrow> pointer_event \<Rightarrow> controls" where
  "handleMouseMovePan this event = update (handleMouseMovePan_pending this event)"

definition handleMouseWheel_pending :: "controls \<Rightarrow> wheel_event \<Rightarrow> controls" where
  "handleMouseWheel_pending this event =
     (if deltaY event < 0 then dollyIn this (getZoomScale this (deltaY event))
      else if deltaY event > 0 then dollyOut this (getZoomScale this (deltaY event))
      else this)"

definition handleMouseWheel :: "controls \<Rightarrow> wheel_event \<Rightarrow> controls" where
  "handleMouseWheel this event = update (handleMouseWheel_pending this event)"

text \<open>\<^verbatim>\<open>needsUpdate\<close> is set by exactly the four arrow keys.\<close>

definition handleKeyDown :: "controls \<Rightarrow> keyboard_event \<Rightarrow> controls" where
  "handleKeyDown this event =
     (if code event = KEYS_UP then
        update (if key_shiftKey event
                then rotateUp this (TWO_PI * rotateSpeed this / real (clientHeight this))
                else pan this 0 (keyPanSpeed this))
      else if code event = KEYS_BOTTOM then
        update (if key_shiftKey event
                then rotateUp this (- TWO_PI * rotateSpeed this / real (clientHeight this))
                else pan this 0 (- keyPanSpeed this))
      else if code event = KEYS_LEFT then
        update (if key_shiftKey event
                then rotateLeft this (TWO_PI * rotateSpeed this / real (clientHeight this))
                else pan this (keyPanSpeed this) 0)
      else if code event = KEYS_RIGHT then
        update (if key_shiftKey event
                then rotateLeft this (- TWO_PI * rotateSpeed this / real (clientHeight this))
                else pan this (- keyPanSpeed this) 0)
      else this)"

section \<open>The pointer registry\<close>

text \<open>
  Reading a JavaScript array outside its range, or an object at a key it does not have,
  gives \<^verbatim>\<open>undefined\<close>: \<open>None\<close> here. Reading a property of \<^verbatim>\<open>undefined\<close> throws a
  \<^verbatim>\<open>TypeError\<close>, which ends the handler.
\<close>

datatype error = TypeError

definition at_index :: "'a list \<Rightarrow> nat \<Rightarrow> 'a option" where
  "at_index xs i = (if i < length xs then Some (xs ! i) else None)"

definition addPointer :: "controls \<Rightarrow> 'a touch_event_scheme \<Rightarrow> controls" where
  "addPointer this event = this\<lparr>pointers := pointers this @ [pointerId event]\<rparr>"

text \<open>The loop of \<^verbatim>\<open>removePointer\<close> splices out the first entry equal to the id and returns.\<close>

definition removePointer :: "controls \<Rightarrow> 'a touch_event_scheme \<Rightarrow> controls" where
  "removePointer this event =
     this\<lparr>pointerPositions := (pointerPositions this)(pointerId event := None),
          pointers := remove1 (pointerId event) (pointers this)\<rparr>"

definition isTrackingPointer :: "controls \<Rightarrow> 'a touch_event_scheme \<Rightarrow> bool" where
  "isTrackingPointer this event = (pointerId event \<in> set (pointers this))"

definition trackPointer :: "controls \<Rightarrow> 'a touch_event_scheme \<Rightarrow> controls" where
  "trackPointer this event =
     this\<lparr>pointerPositions :=
            (pointerPositions this)(pointerId event \<mapsto> Vector2 (pageX event) (pageY event))\<rparr>"

definition getSecondPointerPosition :: "controls \<Rightarrow> 'a touch_event_scheme \<Rightarrow> vector2 option" where
  "getSecondPointerPosition this event =
     (let pointerId1 = (if Some (pointerId event) = at_index (pointers this) 0
                        then at_index (pointers this) 1 else at_index (pointers this) 0)
      in case pointerId1 of None \<Rightarrow> None | Some i \<Rightarrow> pointerPositions this i)"

section \<open>Event callbacks: touch\<close>

definition handleTouchStartRotate :: "controls \<Rightarrow> 'a touch_event_scheme \<Rightarrow> error + controls" where
  "handleTouchStartRotate this event =
     (if length (pointers this) = 1
      then Inr (this\<lparr>rotateStart := Vector2 (pageX event) (pageY event)\<rparr>)
      else case getSecondPointerPosition this event of
             None \<Rightarrow> Inl TypeError
           | Some position2 \<Rightarrow>
               Inr (this\<lparr>rotateStart := Vector2 (0.5 * (pageX event + x2 position2))
                                                (0.5 * (pageY event + y2 position2))\<rparr>))"

definition handleTouchStartPan :: "controls \<Rightarrow> 'a touch_event_scheme \<Rightarrow> error + controls" where
  "handleTouchStartPan this event =
     (if length (pointers this) = 1
      then Inr (this\<lparr>panStart := Vector2 (pageX event) (pageY event)\<rparr>)
      else case getSecondPointerPosition this event of
             None \<Rightarrow> Inl TypeError
           | Some position2 \<Rightarrow>
               Inr (this\<lparr>panStart := Vector2 (0.5 * (pageX event + x2 position2))
                                             (0.5 * (pageY event + y2 position2))\<rparr>))"

definition handleTouchStartDolly :: "controls \<Rightarrow> 'a touch_event_scheme \<Rightarrow> error + controls" where
  "handleTouchStartDolly this event =
     (case getSecondPointerPosition this event of
        None \<Rightarrow> Inl TypeError
      | Some position2 \<Rightarrow>
          (let dx = pageX event - x2 position2;
               dy = pageY event - y2 position2;
               distance = sqrt (dx * dx + dy * dy)
           in Inr (this\<lparr>dollyStart := Vector2 0 distance\<rparr>)))"

definition handleTouchStartDollyPan :: "controls \<Rightarrow> 'a touch_event_scheme \<Rightarrow> error + controls" where
  "handleTouchStartDollyPan this event =
     (case handleTouchStartDolly this event of
        Inl e \<Rightarrow> Inl e
      | Inr this1 \<Rightarrow> handleTouchStartPan this1 event)"

definition handleTouchStartDollyRotate :: "controls \<Rightarrow> 'a touch_event_scheme \<Rightarrow> error + controls" where
  "handleTouchStartDollyRotate this event =
     (case handleTouchStartDolly this event of
        Inl e \<Rightarrow> Inl e
      | Inr this1 \<Rightarrow> handleTouchStartRotate this1 event)"

definition handleTouchMoveRotate :: "controls \<Rightarrow> 'a touch_event_scheme \<Rightarrow> error + controls" where
  "handleTouchMoveRotate this event =
     (case (if length (pointers this) = 1
            then Inr (this\<lparr>rotateEnd := Vector2 (pageX event) (pageY event)\<rparr>)
            else case getSecondPointerPosition this event of
                   None \<Rightarrow> Inl TypeError
                 | Some position2 \<Rightarrow>
                     Inr (this\<lparr>rotateEnd := Vector2 (0.5 * (pageX event + x2 position2))
                                                    (0.5 * (pageY event + y2 position2))\<rparr>)) of
        Inl e \<Rightarrow> Inl e
      | Inr this1 \<Rightarrow>
          (let this2 = this1\<lparr>rotateDelta := Vector2_multiplyScalar
                         (Vector2_subVectors (rotateEnd this1) (rotateStart this1))
                         (rotateSpeed this1)\<rparr>;
               this3 = rotateLeft this2
                         (TWO_PI * x2 (rotateDelta this2) / real (clientHeight this2));
               this4 = rotateUp this3
                         (TWO_PI * y2 (rotateDelta this3) / real (clientHeight this3))
           in Inr (this4\<lparr>rotateStart := rotateEnd this4\<rparr>)))"

definition handleTouchMovePan :: "controls \<Rightarrow> 'a touch_event_scheme \<Rightarrow> error + controls" where
  "handleTouchMovePan this event =
     (case (if length (pointers this) = 1
            then Inr (this\<lparr>panEnd := Vector2 (pageX event) (pageY event)\<rparr>)
            else case getSecondPointerPosition this event of
                   None \<Rightarrow> Inl TypeError
                 | Some position2 \<Rightarrow>
                     Inr (this\<lparr>panEnd := Vector2 (0.5 * (pageX event + x2 position2))
                                                 (0.5 * (pageY event + y2 position2))\<rparr>)) of
        Inl e \<Rightarrow> Inl e
      | Inr this1 \<Rightarrow>
          (let this2 = this1\<lparr>panDelta := Vector2_multiplyScalar
                         (Vector2_subVectors (panEnd this1) (panStart this1)) (panSpeed this1)\<rparr>;
               this3 = pan this2 (x2 (panDelta this2)) (y2 (panDelta this2))
           in Inr (this3\<lparr>panStart := panEnd this3\<rparr>)))"

definition handleTouchMoveDolly :: "controls \<Rightarrow> 'a touch_event_scheme \<Rightarrow> error + controls" where
  "handleTouchMoveDolly this event =
     (case getSecondPointerPosition this event of
        None \<Rightarrow> Inl TypeError
      | Some position2 \<Rightarrow>
          (let dx = pageX event - x2 position2;
               dy = pageY event - y2 position2;
               distance = sqrt (dx * dx + dy * dy);
               this1 = this\<lparr>dollyEnd := Vector2 0 distance\<rparr>;
               this2 = this1\<lparr>dollyDelta := Vector2 0
                         (Math_pow (y2 (dollyEnd this1) / y2 (dollyStart this1)) (zoomSpeed this1))\<rparr>;
               this3 = dollyOut this2 (y2 (dollyDelta this2))
           in Inr (this3\<lparr>dollyStart := dollyEnd this3\<rparr>)))"

definition handleTouchMoveDollyPan :: "controls \<Rightarrow> 'a touch_event_scheme \<Rightarrow> error + controls" where
  "handleTouchMoveDollyPan this event =
     (case handleTouchMoveDolly this event of
        Inl e \<Rightarrow> Inl e
      | Inr this1 \<Rightarrow> handleTouchMovePan this1 event)"

definition handleTouchMoveDollyRotate :: "controls \<Rightarrow> 'a touch_event_scheme \<Rightarrow> error + controls" where
  "handleTouchMoveDollyRotate this event =
     (case handleTouchMoveDolly this event of
        Inl e \<Rightarrow> Inl e
      | Inr this1 \<Rightarrow> handleTouchMoveRotate this1 event)"

section \<open>Event handlers: the gesture state machine\<close>

definition onTouchStart :: "controls \<Rightarrow> 'a touch_event_scheme \<Rightarrow> error + controls" where
  "onTouchStart this event =
     (let this1 = trackPointer this event
      in case (if length (pointers this1) = 1 then
                 (case TOUCHES_ONE of
                    T_ROTATE \<Rightarrow>
                      (case handleTouchStartRotate this1 event of
                         Inl e \<Rightarrow> Inl e | Inr t \<Rightarrow> Inr (t\<lparr>state := TOUCH_ROTATE\<rparr>))
                  | T_PAN \<Rightarrow>
                      (case handleTouchStartPan this1 event of
                         Inl e \<Rightarrow> Inl e | Inr t \<Rightarrow> Inr (t\<lparr>state := TOUCH_PAN\<rparr>))
                  | _ \<Rightarrow> Inr (this1\<lparr>state := NONE\<rparr>))
               else if length (pointers this1) = 2 then
                 (case TOUCHES_TWO of
                    T_DOLLY_PAN \<Rightarrow>
                      (case handleTouchStartDollyPan this1 event of
                         Inl e \<Rightarrow> Inl e | Inr t \<Rightarrow> Inr (t\<lparr>state := TOUCH_DOLLY_PAN\<rparr>))
                  | T_DOLLY_ROTATE \<Rightarrow>
                      (case handleTouchStartDollyRotate this1 event of
                         Inl e \<Rightarrow> Inl e | Inr t \<Rightarrow> Inr (t\<lparr>state := TOUCH_DOLLY_ROTATE\<rparr>))
                  | _ \<Rightarrow> Inr (this1\<lparr>state := NONE\<rparr>))
               else Inr (this1\<lparr>state := NONE\<rparr>)) of
           Inl e \<Rightarrow> Inl e
         | Inr this2 \<Rightarrow>
             Inr (if state this2 \<noteq> NONE then dispatchEvent this2 Start else this2))"

definition onTouchMove :: "controls \<Rightarrow> 'a touch_event_scheme \<Rightarrow> error + controls" where
  "onTouchMove this event =
     (let this1 = trackPointer this event
      in case state this1 of
           TOUCH_ROTATE \<Rightarrow>
             (case handleTouchMoveRotate this1 event of
                Inl e \<Rightarrow> Inl e | Inr t \<Rightarrow> Inr (update t))
         | TOUCH_PAN \<Rightarrow>
             (case handleTouchMovePan this1 event of
                Inl e \<Rightarrow> Inl e | Inr t \<Rightarrow> Inr (update t))
         | TOUCH_DOLLY_PAN \<Rightarrow>
             (case handleTouchMoveDollyPan this1 event of
                Inl e \<Rightarrow> Inl e | Inr t \<Rightarrow> Inr (update t))
         | TOUCH_DOLLY_ROTATE \<Rightarrow>
             (case handleTouchMoveDollyRotate this1 event of
                Inl e \<Rightarrow> Inl e | Inr t \<Rightarrow> Inr (update t))
         | _ \<Rightarrow> Inr (this1\<lparr>state := NONE\<rparr>))"

text \<open>\<open>mouseAction\<close> is \<open>None\<close> for the source's \<open>-1\<close>, which matches no \<^verbatim>\<open>THREE.MOUSE\<close> value.\<close>

definition onMouseDown :: "controls \<Rightarrow> pointer_event \<Rightarrow> controls" where
  "onMouseDown this event =
     (let mouseAction = (if button event = 0 then Some MOUSE_BUTTONS_LEFT
                         else if button event = 1 then Some MOUSE_BUTTONS_MIDDLE
                         else if button event = 2 then Some MOUSE_BUTTONS_RIGHT
                         else None);
          this1 = (case mouseAction of
                     Some MOUSE_DOLLY \<Rightarrow> (handleMouseDownDolly this event)\<lparr>state := DOLLY\<rparr>
                   | Some MOUSE_ROTATE \<Rightarrow>
                       (if shiftKey event then (handleMouseDownPan this event)\<lparr>state := PAN\<rparr>
                        else (handleMouseDownRotate this event)\<lparr>state := ROTATE\<rparr>)
                   | Some MOUSE_PAN \<Rightarrow>
                       (if shiftKey event then (handleMouseDownRotate this event)\<lparr>state := ROTATE\<rparr>
                        else (handleMouseDownPan this event)\<lparr>state := PAN\<rparr>)
                   | None \<Rightarrow> this\<lparr>state := NONE\<rparr>)
      in if state this1 \<noteq> NONE then dispatchEvent this1 Start else this1)"

definition onMouseMove :: "controls \<Rightarrow> pointer_event \<Rightarrow> controls" where
  "onMouseMove this event =
     (case state this of
        ROTATE \<Rightarrow> handleMouseMoveRotate this event
      | DOLLY \<Rightarrow> handleMouseMoveDolly this event
      | PAN \<Rightarrow> handleMouseMovePan this event
      | _ \<Rightarrow> this)"

definition onMouseWheel :: "controls \<Rightarrow> wheel_event \<Rightarrow> controls" where
  "onMouseWheel this event =
     (if state this \<noteq> NONE then this
      else
        (let this1 = dispatchEvent this Start;
             newEvent = event;
             newEvent1 = (if deltaMode event = 1 then newEvent\<lparr>deltaY := deltaY newEvent * 16\<rparr>
                          else if deltaMode event = 2 then newEvent\<lparr>deltaY := deltaY newEvent * 100\<rparr>
                          else newEvent);
             newEvent2 = (if ctrlKey event \<and> \<not> controlActive this1
                          then newEvent1\<lparr>deltaY := deltaY newEvent1 * 10\<rparr> else newEvent1);
             this2 = handleMouseWheel this1 newEvent2
         in dispatchEvent this2 End))"

definition onKeyDown :: "controls \<Rightarrow> keyboard_event \<Rightarrow> controls" where
  "onKeyDown this event = handleKeyDown this event"

definition onContextMenu :: "controls \<Rightarrow> pointer_event \<Rightarrow> controls" where
  "onContextMenu this event = this"

definition onPointerDown :: "controls \<Rightarrow> pointer_event \<Rightarrow> error + controls" where
  "onPointerDown this event =
     (let this1 = (if length (pointers this) = 0 then this\<lparr>listening := True\<rparr> else this)
      in if isTrackingPointer this1 event then Inr this1
         else (let this2 = addPointer this1 event
               in if pointerType event = ''touch'' then onTouchStart this2 event
                  else Inr (onMouseDown this2 event)))"

definition onPointerMove :: "controls \<Rightarrow> pointer_event \<Rightarrow> error + controls" where
  "onPointerMove this event =
     (if pointerType event = ''touch'' then onTouchMove this event
      else Inr (onMouseMove this event))"

text \<open>
  \<^verbatim>\<open>onPointerUp\<close> also handles \<^verbatim>\<open>pointercancel\<close>. With one pointer left it calls
  \<^verbatim>\<open>onTouchStart\<close> on a placeholder built from the stored position of that pointer.
\<close>

definition onPointerUp :: "controls \<Rightarrow> 'a touch_event_scheme \<Rightarrow> error + controls" where
  "onPointerUp this event =
     (let this1 = removePointer this event
      in if length (pointers this1) = 0 then
           Inr ((dispatchEvent (this1\<lparr>listening := False\<rparr>) End)\<lparr>state := NONE\<rparr>)
         else if length (pointers this1) = 1 then
           (let pointerId1 = pointers this1 ! 0
            in case pointerPositions this1 pointerId1 of
                 None \<Rightarrow> Inl TypeError
               | Some position2 \<Rightarrow>
                   onTouchStart this1
                     \<lparr>pointerId = pointerId1, pageX = x2 position2, pageY = y2 position2\<rparr>)
         else Inr this1)"

text \<open>
  The constructor: the defaults, then \<^verbatim>\<open>update()\<close>. A new \<^verbatim>\<open>Spherical\<close> has radius 1 and a
  new \<^verbatim>\<open>Vector2\<close> or \<^verbatim>\<open>Vector3\<close> is zero.
\<close>

definition OrbitControls :: "camera \<Rightarrow> nat \<Rightarrow> controls" where
  "OrbitControls cam domElement_clientHeight =
     update
       \<lparr>camera = cam, clientHeight = domElement_clientHeight,
        target = Vector3 0 0 0, cursor = Vector3 0 0 0,
        minDistance = 0, maxDistance = Infinity,
        minTargetRadius = 0, maxTargetRadius = Infinity,
        minPolarAngle = 0, maxPolarAngle = pi,
        minAzimuthAngle = NegInfinity, maxAzimuthAngle = Infinity,
        zoomSpeed = 1.0, rotateSpeed = 1.0, panSpeed = 1.0, keyPanSpeed = 7.0,
        state = NONE,
        spherical = Spherical 1 0 0, sphericalDelta = Spherical 1 0 0,
        scale = 1, panOffset = Vector3 0 0 0,
        rotateStart = Vector2 0 0, rotateEnd = Vector2 0 0, rotateDelta = Vector2 0 0,
        panStart = Vector2 0 0, panEnd = Vector2 0 0, panDelta = Vector2 0 0,
        dollyStart = Vector2 0 0, dollyEnd = Vector2 0 0, dollyDelta = Vector2 0 0,
        pointers = [], pointerPositions = Map.empty,
        controlActive = False, listening = False, dispatched = [],
        enableDamping = None\<rparr>"

section \<open>Notions used by the properties\<close>

text \<open>\<^verbatim>\<open>lengthSq()\<close> of the library's \<^verbatim>\<open>Quaternion\<close> and \<^verbatim>\<open>Vector3\<close>.\<close>

definition Quaternion_lengthSq :: "quaternion \<Rightarrow> real" where
  "Quaternion_lengthSq q = qx q * qx q + qy q * qy q + qz q * qz q + qw q * qw q"

definition Vector3_lengthSq :: "vector3 \<Rightarrow> real" where
  "Vector3_lengthSq v = x3 v * x3 v + y3 v * y3 v + z3 v * z3 v"




text \<open>
  A dolly or wheel gesture step, each followed by \<^verbatim>\<open>update()\<close>: a mouse move in state
  \<open>DOLLY\<close>, an accepted wheel event, or a two-finger touch move, which is what
  \<^verbatim>\<open>onTouchMove\<close> does in the states \<open>TOUCH_DOLLY_PAN\<close> and \<open>TOUCH_DOLLY_ROTATE\<close>. A touch move
  throws when the other contact has no stored position.
\<close>

datatype dolly_gesture =
    MouseMoveDolly pointer_event
  | MouseWheel wheel_event
  | TouchMoveDollyPan pointer_event
  | TouchMoveDollyRotate pointer_event

fun dolly_gesture_step :: "controls \<Rightarrow> dolly_gesture \<Rightarrow> error + controls" where
  "dolly_gesture_step this (MouseMoveDolly event) = Inr (handleMouseMoveDolly this event)"
| "dolly_gesture_step this (MouseWheel event) = Inr (handleMouseWheel this event)"
| "dolly_gesture_step this (TouchMoveDollyPan event) =
     (case handleTouchMoveDollyPan (trackPointer this event) event of
        Inl e \<Rightarrow> Inl e | Inr t \<Rightarrow> Inr (update t))"
| "dolly_gesture_step this (TouchMoveDollyRotate event) =
     (case handleTouchMoveDollyRotate (trackPointer this event) event of
        Inl e \<Rightarrow> Inl e | Inr t \<Rightarrow> Inr (update t))"




text \<open>
  A gesture is open in a log of notifications when the last notification other than \<open>Change\<close>
  is a \<open>Start\<close>: a \<open>Start\<close> has been dispatched and no \<open>End\<close> since. A step from \<open>this\<close> to \<open>t\<close>
  duplicates the \<open>Start\<close> when it dispatches one more while the gesture is open.
\<close>

definition gesture_open :: "notification list \<Rightarrow> bool" where
  "gesture_open ns =
     (case dropWhile (\<lambda>n. n = Change) (rev ns) of Start # _ \<Rightarrow> True | _ \<Rightarrow> False)"

definition duplicates_start :: "controls \<Rightarrow> controls \<Rightarrow> bool" where
  "duplicates_start this t =
     (gesture_open (dispatched this) \<and> dispatched t = dispatched this @ [Start])"

text \<open>
  \<^verbatim>\<open>getPolarAngle()\<close> lies in the interval from \<open>minPolarAngle\<close> to \<open>maxPolarAngle\<close> and is
  neither \<open>0\<close> nor \<open>\<pi>\<close>.
\<close>

definition polar_within_limits :: "controls \<Rightarrow> bool" where
  "polar_within_limits this =
     (minPolarAngle this \<le> getPolarAngle this \<and> getPolarAngle this \<le> maxPolarAngle this
      \<and> getPolarAngle this \<noteq> 0 \<and> getPolarAngle this \<noteq> pi)"

text \<open>
  The wheel delta after the scaling of \<^verbatim>\<open>onMouseWheel\<close>, in the words of the specification:
  times 16 in line mode, times 100 in page mode, and times 10 more when \<open>ctrlKey\<close> marks a
  pinch.
\<close>

definition normalizedDelta :: "wheel_event \<Rightarrow> real" where
  "normalizedDelta event =
     deltaY event * (if deltaMode event = 1 then 16 else if deltaMode event = 2 then 100 else 1)
       * (if ctrlKey event then 10 else 1)"

section \<open>Example inputs\<close>

text \<open>
  The camera of the demo pages: at \<open>(5, 5, 5)\<close>, field of view 75, up vector \<open>(0, 1, 0)\<close>.
  Its \<open>lookAt\<close> is a stand-in for the library's method, which no property below depends on:
  it keeps the orientation and writes the position into the matrix.
\<close>

definition example_camera :: camera where
  "example_camera =
     \<lparr>position = Vector3 5 5 5, up = Vector3 0 1 0, quaternion = Quaternion 0 0 0 1,
      matrix = Matrix4 (Vector3 1 0 0) (Vector3 0 1 0) (Vector3 0 0 1) (Vector3 5 5 5),
      fov = 75,
      lookAt = (\<lambda>p u q t. (q, Matrix4 (Vector3 1 0 0) (Vector3 0 1 0) (Vector3 0 0 1) p))\<rparr>"

text \<open>A controller constructed for that camera on an element 500 pixels high.\<close>

definition example_controls :: controls where
  "example_controls = OrbitControls example_camera 500"

definition example_wheel :: wheel_event where
  "example_wheel = \<lparr>deltaY = 100, deltaMode = 0, ctrlKey = False\<rparr>"

definition example_drag :: pointer_event where
  "example_drag =
     \<lparr>pointerId = 1, pageX = 150, pageY = 100, pointerType = ''mouse'',
      clientX = 150, clientY = 100, button = 0, shiftKey = False\<rparr>"


text \<open>Polar limits inside \<open>(0, \<pi>)\<close>: first below the safe zone of \<^verbatim>\<open>makeSafe\<close>, then within it.\<close>

definition c3_controls :: controls where
  "c3_controls = example_controls\<lparr>minPolarAngle := 1 / 10000000, maxPolarAngle := 2 / 10000000\<rparr>"

definition c3_witness_controls :: controls where
  "c3_witness_controls = example_controls\<lparr>minPolarAngle := 1 / 2, maxPolarAngle := 3 / 2\<rparr>"

text \<open>
  Azimuth limits of 170 and -170 degrees, with the camera straight behind the target, so that
  the azimuth \<^verbatim>\<open>update\<close> starts from is 180 degrees.
\<close>

definition c5_controls :: controls where
  "c5_controls =
     example_controls\<lparr>camera := example_camera\<lparr>position := Vector3 0 0 (- 5)\<rparr>,
       target := Vector3 0 0 0,
       minAzimuthAngle := Lower (170 * pi / 180), maxAzimuthAngle := Upper (- 170 * pi / 180)\<rparr>"

text \<open>A rotate drag under way: the last pointer position was \<open>(100, 100)\<close>.\<close>

definition c6_controls :: controls where
  "c6_controls = example_controls\<lparr>state := ROTATE, rotateStart := Vector2 100 100\<rparr>"

text \<open>
  A two-finger gesture under way: contact 1 at \<open>(100, 100)\<close>, contact 2 at \<open>(200, 100)\<close>,
  separation 100. Then contact 2 moves to \<open>(250, 100)\<close>, separation 150.
\<close>

definition c8_controls :: controls where
  "c8_controls =
     example_controls\<lparr>state := TOUCH_DOLLY_PAN, dollyStart := Vector2 0 100,
       panStart := Vector2 150 100, pointers := [1, 2],
       pointerPositions := [1 \<mapsto> Vector2 100 100, 2 \<mapsto> Vector2 200 100]\<rparr>"

definition c8_move :: touch_event where
  "c8_move = \<lparr>pointerId = 2, pageX = 250, pageY = 100\<rparr>"

text \<open>The event that lifts contact 1.\<close>

definition c9_up :: touch_event where
  "c9_up = \<lparr>pointerId = 1, pageX = 100, pageY = 100\<rparr>"

text \<open>
  Two fingers put down one after the other on the example controller, the states this
  leads to, and the state after the second finger is lifted again.
\<close>

definition touch_a :: pointer_event where
  "touch_a =
     \<lparr>pointerId = 1, pageX = 100, pageY = 100, pointerType = ''touch'',
      clientX = 100, clientY = 100, button = 0, shiftKey = False\<rparr>"

definition touch_b :: pointer_event where
  "touch_b =
     \<lparr>pointerId = 2, pageX = 200, pageY = 100, pointerType = ''touch'',
      clientX = 200, clientY = 100, button = 0, shiftKey = False\<rparr>"

definition c9_one_finger :: controls where
  "c9_one_finger =
     example_controls\<lparr>state := TOUCH_ROTATE, rotateStart := Vector2 100 100, pointers := [1],
       pointerPositions := [1 \<mapsto> Vector2 100 100], listening := True,
       dispatched := [Change, Start]\<rparr>"

definition c9_two_fingers :: controls where
  "c9_two_fingers =
     c9_one_finger\<lparr>state := TOUCH_DOLLY_PAN, panStart := Vector2 150 100,
       dollyStart := Vector2 0 100, pointers := [1, 2],
       pointerPositions := [1 \<mapsto> Vector2 100 100, 2 \<mapsto> Vector2 200 100],
       dispatched := [Change, Start, Start]\<rparr>"

definition c9_after_up :: controls where
  "c9_after_up =
     c9_two_fingers\<lparr>state := TOUCH_ROTATE, pointers := [1],
       pointerPositions := [1 \<mapsto> Vector2 100 100],
       dispatched := [Change, Start, Start, Start]\<rparr>"

text \<open>A third finger down: three contacts put the controller in state \<open>NONE\<close>.\<close>

definition touch_c :: pointer_event where
  "touch_c =
     \<lparr>pointerId = 3, pageX = 300, pageY = 100, pointerType = ''touch'',
      clientX = 300, clientY = 100, button = 0, shiftKey = False\<rparr>"

definition c9_three_fingers :: controls where
  "c9_three_fingers =
     c9_two_fingers\<lparr>state := NONE, pointers := [1, 2, 3],
       pointerPositions :=
         [1 \<mapsto> Vector2 100 100, 2 \<mapsto> Vector2 200 100, 3 \<mapsto> Vector2 300 100]\<rparr>"



definition example_key :: keyboard_event where
  "example_key = \<lparr>code = ''ArrowUp'', key_shiftKey = False\<rparr>"

section \<open>What one call of \<open>update\<close> does\<close>

text \<open>
  The first lemma reads the definition of \<open>update\<close> with the named intermediate values. The
  target ends at least \<open>MIN_TARGET_HEIGHT\<close> high, hence further than \<open>EPS\<close> from the origin,
  so the last disjunct of the change test holds in every call.
\<close>

lemma update_unfold:
  "update this =
     (let this1 = this\<lparr>camera := update_camera1 this, target := update_target5 this,
                    spherical := update_sph2 this, sphericalDelta := Spherical 0 0 0,
                    panOffset := Vector3 0 0 0, scale := 1\<rparr>
      in if radius (update_sph1 this) \<noteq> radius (update_sph2 this)
            \<or> Vector3_distanceToSquared (Vector3 0 0 0) (position (camera this1)) > EPS
            \<or> 8 * (1 - Quaternion_dot (Quaternion 0 0 0 1) (quaternion (camera this1))) > EPS
            \<or> Vector3_distanceToSquared (Vector3 0 0 0) (target this1) > EPS
         then dispatchEvent this1 Change
         else this1)"
  by (simp only: update_def Let_def update_camera1_def update_position1_def update_sph2_def
      update_target5_def update_sph1_def update_phi2_def update_theta2_def update_phi1_def
      update_theta1_def update_offset_def update_quat_def)

lemma far_from_origin:
  assumes "MIN_TARGET_HEIGHT \<le> y3 v"
  shows "EPS < Vector3_distanceToSquared (Vector3 0 0 0) v"
proof -
  have y: "1 / 10 \<le> y3 v"
    using assms by (simp add: MIN_TARGET_HEIGHT_def)
  have "(1 / 10) * (1 / 10) \<le> y3 v * y3 v"
    using y by (intro mult_mono) simp_all
  moreover have "0 \<le> x3 v * x3 v" and "0 \<le> z3 v * z3 v"
    by simp_all
  ultimately have "1 / 100 \<le> x3 v * x3 v + y3 v * y3 v + z3 v * z3 v"
    by linarith
  then show ?thesis
    by (simp add: Vector3_distanceToSquared_def EPS_def)
qed

lemma update_target5_height: "MIN_TARGET_HEIGHT \<le> y3 (update_target5 this)"
  by (simp add: update_target5_def Let_def)

lemma update_eq:
  "update this =
     this\<lparr>camera := update_camera1 this, target := update_target5 this,
          spherical := update_sph2 this, sphericalDelta := Spherical 0 0 0,
          panOffset := Vector3 0 0 0, scale := 1,
          dispatched := dispatched this @ [Change]\<rparr>"
  by (simp add: update_unfold Let_def dispatchEvent_def far_from_origin update_target5_height)

lemma update_fields:
  "camera (update this) = update_camera1 this"
  "target (update this) = update_target5 this"
  "spherical (update this) = update_sph2 this"
  "sphericalDelta (update this) = Spherical 0 0 0"
  "panOffset (update this) = Vector3 0 0 0"
  "scale (update this) = 1"
  "dispatched (update this) = dispatched this @ [Change]"
  by (simp_all add: update_eq)

lemma update_keeps:
  "clientHeight (update this) = clientHeight this"
  "minDistance (update this) = minDistance this"
  "maxDistance (update this) = maxDistance this"
  "minPolarAngle (update this) = minPolarAngle this"
  "maxPolarAngle (update this) = maxPolarAngle this"
  "minAzimuthAngle (update this) = minAzimuthAngle this"
  "maxAzimuthAngle (update this) = maxAzimuthAngle this"
  "rotateSpeed (update this) = rotateSpeed this"
  "zoomSpeed (update this) = zoomSpeed this"
  "state (update this) = state this"
  "pointers (update this) = pointers this"
  "pointerPositions (update this) = pointerPositions this"
  "controlActive (update this) = controlActive this"
  "enableDamping (update this) = enableDamping this"
  by (simp_all add: update_eq)

text \<open>The example controller after its constructor.\<close>

lemma example_controls_fields:
  "sphericalDelta example_controls = Spherical 0 0 0"
  "scale example_controls = 1"
  "panOffset example_controls = Vector3 0 0 0"
  "clientHeight example_controls = 500"
  "rotateSpeed example_controls = 1"
  "zoomSpeed example_controls = 1"
  "state example_controls = NONE"
  "controlActive example_controls = False"
  "pointers example_controls = []"
  "dispatched example_controls = [Change]"
  by (simp_all add: example_controls_def OrbitControls_def update_fields update_keeps)

text \<open>
  Claim C1 (calling \<^verbatim>\<open>update()\<close> twice with no input in between gives no further change
  notification the second time). The code does not do this: \<open>lastPosition\<close>,
  \<open>lastQuaternion\<close> and \<open>lastTargetPosition\<close> are locals of \<^verbatim>\<open>update\<close>, so every call
  compares the new pose with the origin and dispatches \<open>Change\<close>, the second of two
  successive calls included.
\<close>

theorem C1_second_update_dispatches_change:
  "dispatched (update (update this)) = dispatched (update this) @ [Change]
   \<and> sphericalDelta (update this) = Spherical 0 0 0
   \<and> panOffset (update this) = Vector3 0 0 0 \<and> scale (update this) = 1"
  by (simp add: update_fields)

text \<open>
  The example controller has dispatched \<open>Change\<close> once, in its constructor. Two further
  calls with nothing pending dispatch it twice more.
\<close>

theorem C1_second_update_dispatches_change_witness:
  "sphericalDelta example_controls = Spherical 0 0 0
   \<and> panOffset example_controls = Vector3 0 0 0 \<and> scale example_controls = 1
   \<and> dispatched example_controls = [Change]
   \<and> dispatched (update example_controls) = [Change, Change]
   \<and> dispatched (update (update example_controls)) = [Change, Change, Change]"
proof -
  have "dispatched example_controls = [Change]"
    "sphericalDelta example_controls = Spherical 0 0 0"
    "panOffset example_controls = Vector3 0 0 0" "scale example_controls = 1"
    by (simp_all add: example_controls_def OrbitControls_def update_fields)
  then show ?thesis
    using C1_second_update_dispatches_change [of example_controls]
    by (simp add: update_fields)
qed

section \<open>The camera's distance from the target\<close>

text \<open>
  \<^verbatim>\<open>setFromUnitVectors\<close> ends with \<^verbatim>\<open>normalize()\<close>, so the orbit quaternion has unit length and
  rotating by it keeps the length of a vector. A vector built from spherical coordinates is
  as long as the absolute value of the radius. Hence the distance after \<open>update\<close>.
\<close>

lemma scaled_squares:
  fixes a b c d k :: real
  shows "a * k * (a * k) + b * k * (b * k) + c * k * (c * k) + d * k * (d * k)
       = (a * a + b * b + c * c + d * d) * (k * k)"
  by (simp add: algebra_simps)

lemma normalize_unit: "Quaternion_lengthSq (Quaternion_normalize q) = 1"
proof (cases "Quaternion_length q = 0")
  case True
  then show ?thesis
    by (simp add: Quaternion_normalize_def Quaternion_lengthSq_def)
next
  case False
  define S where "S = qx q * qx q + qy q * qy q + qz q * qz q + qw q * qw q"
  define k where "k = 1 / sqrt S"
  have S0: "0 \<le> S" by (simp add: S_def)
  have l: "Quaternion_length q = sqrt S" by (simp add: Quaternion_length_def S_def)
  have Sne: "S \<noteq> 0" using False l by auto
  have kk: "k * k = 1 / S"
    using S0 by (simp add: k_def)
  have "Quaternion_lengthSq (Quaternion_normalize q)
      = qx q * k * (qx q * k) + qy q * k * (qy q * k) + qz q * k * (qz q * k) + qw q * k * (qw q * k)"
    using False l by (simp add: Quaternion_normalize_def Quaternion_lengthSq_def Let_def k_def)
  also have "\<dots> = S * (k * k)"
    unfolding S_def by (rule scaled_squares)
  also have "\<dots> = 1"
    using Sne by (simp add: kk)
  finally show ?thesis .
qed

lemma update_quat_unit: "Quaternion_lengthSq (Quaternion_invert (update_quat this)) = 1"
proof -
  have "Quaternion_lengthSq (Quaternion_invert q) = Quaternion_lengthSq q" for q
    by (simp add: Quaternion_invert_def Quaternion_lengthSq_def)
  then show ?thesis
    by (simp add: update_quat_def Quaternion_setFromUnitVectors_def Let_def normalize_unit)
qed

lemma applyQuaternion_lengthSq:
  "Vector3_lengthSq (Vector3_applyQuaternion v q) =
     Vector3_lengthSq v + (Quaternion_lengthSq q - 1) *
       (4 * ((qy q * z3 v - qz q * y3 v) * (qy q * z3 v - qz q * y3 v)
           + (qz q * x3 v - qx q * z3 v) * (qz q * x3 v - qx q * z3 v)
           + (qx q * y3 v - qy q * x3 v) * (qx q * y3 v - qy q * x3 v)))"
  by (simp add: Vector3_applyQuaternion_def Vector3_lengthSq_def Quaternion_lengthSq_def Let_def algebra_simps)

lemma spherical_squares:
  fixes r sp cp st ct :: real
  shows "sp * r * st * (sp * r * st) + cp * r * (cp * r) + sp * r * ct * (sp * r * ct)
       = r * r * (sp * sp * (ct * ct + st * st) + cp * cp)"
  by (simp add: algebra_simps)

lemma setFromSpherical_lengthSq:
  "Vector3_lengthSq (Vector3_setFromSpherical s) = radius s * radius s"
proof -
  have "Vector3_lengthSq (Vector3_setFromSpherical s)
      = sin (phi s) * radius s * sin (theta s) * (sin (phi s) * radius s * sin (theta s))
        + cos (phi s) * radius s * (cos (phi s) * radius s)
        + sin (phi s) * radius s * cos (theta s) * (sin (phi s) * radius s * cos (theta s))"
    by (simp add: Vector3_setFromSpherical_def Vector3_lengthSq_def Let_def)
  also have "\<dots> = radius s * radius s *
      (sin (phi s) * sin (phi s) * (cos (theta s) * cos (theta s) + sin (theta s) * sin (theta s))
       + cos (phi s) * cos (phi s))"
    by (rule spherical_squares)
  also have "\<dots> = radius s * radius s * (sin (phi s) * sin (phi s) + cos (phi s) * cos (phi s))"
    by (simp only: sin_cos_squared_add3 mult_1_right)
  also have "\<dots> = radius s * radius s"
    by (simp only: add.commute [of "sin (phi s) * sin (phi s)"] sin_cos_squared_add3 mult_1_right)
  finally show ?thesis .
qed

lemma distanceTo_add: "Vector3_distanceTo (Vector3_add t v) t = sqrt (Vector3_lengthSq v)"
  by (simp add: Vector3_distanceTo_def Vector3_distanceToSquared_def Vector3_lengthSq_def
      Vector3_add_def Let_def)

text \<open>
  In exact arithmetic the distance that \<^verbatim>\<open>getDistance()\<close> recomputes after \<^verbatim>\<open>update\<close> is the
  absolute value of the stored radius. The code's double-precision arithmetic rounds the
  camera position, so there the two agree only approximately; no bound on \<^verbatim>\<open>getDistance()\<close>
  is derived from this lemma.
\<close>

lemma getDistance_update: "getDistance (update this) = \<bar>radius (spherical (update this))\<bar>"
proof -
  have "getDistance (update this) = sqrt (Vector3_lengthSq (Vector3_applyQuaternion
          (Vector3_setFromSpherical (update_sph2 this)) (Quaternion_invert (update_quat this))))"
    by (simp add: getDistance_def update_fields update_camera1_def Let_def update_position1_def
        distanceTo_add)
  also have "\<dots> = sqrt (radius (update_sph2 this) * radius (update_sph2 this))"
    by (simp add: applyQuaternion_lengthSq update_quat_unit setFromSpherical_lengthSq)
  finally show ?thesis
    by (simp add: update_fields)
qed

lemma update_radius:
  "radius (spherical (update this)) = clampDistance this (Vector3_length (update_offset this) * scale this)"
  by (simp add: update_fields update_sph2_def update_sph1_def Spherical_makeSafe_def
      Spherical_setFromVector3_def Vector3_length_def Let_def)



section \<open>The polar angle\<close>

lemma update_polar: "getPolarAngle (update this) = max 0.000001 (min (pi - 0.000001) (update_phi2 this))"
  by (simp add: getPolarAngle_def update_fields update_sph2_def update_sph1_def Spherical_makeSafe_def)

lemma update_polar_safe:
  "0.000001 \<le> getPolarAngle (update this)" "getPolarAngle (update this) \<le> pi - 0.000001"
  using pi_ge_two pi_less_4 by (simp_all add: update_polar)

lemma update_polar_within_limits:
  assumes "minPolarAngle this \<le> maxPolarAngle this"
    and "0.000001 \<le> maxPolarAngle this" and "minPolarAngle this \<le> pi - 0.000001"
  shows "polar_within_limits (update this)"
proof -
  have "minPolarAngle this \<le> update_phi2 this" "update_phi2 this \<le> maxPolarAngle this"
    using assms(1) by (simp_all add: update_phi2_def)
  then have "minPolarAngle this \<le> getPolarAngle (update this)"
    "getPolarAngle (update this) \<le> maxPolarAngle this"
    using assms(2,3) by (simp_all add: update_polar)
  moreover have "getPolarAngle (update this) \<noteq> 0" "getPolarAngle (update this) \<noteq> pi"
    using update_polar_safe [of this] by auto
  ultimately show ?thesis
    by (simp add: polar_within_limits_def update_keeps)
qed

lemma rotate_pending_keeps:
  "minPolarAngle (handleMouseMoveRotate_pending this e) = minPolarAngle this"
  "maxPolarAngle (handleMouseMoveRotate_pending this e) = maxPolarAngle this"
  by (simp_all add: handleMouseMoveRotate_pending_def Let_def rotateLeft_def rotateUp_def)

lemma handleMouseMoveRotate_keeps:
  "minPolarAngle (handleMouseMoveRotate this e) = minPolarAngle this"
  "maxPolarAngle (handleMouseMoveRotate this e) = maxPolarAngle this"
  by (simp_all add: handleMouseMoveRotate_def update_keeps rotate_pending_keeps)

lemma rotate_gestures_keep:
  "minPolarAngle (foldl handleMouseMoveRotate this evs) = minPolarAngle this
   \<and> maxPolarAngle (foldl handleMouseMoveRotate this evs) = maxPolarAngle this"
  by (induction evs arbitrary: this) (simp_all add: handleMouseMoveRotate_keeps)

text \<open>
  Claim C3, amended: when the polar limits are a sub-interval of \<open>(0, \<pi>)\<close> that meets the safe
  zone of \<^verbatim>\<open>makeSafe\<close>, that is \<open>maxPolarAngle \<ge> 0.000001\<close> and
  \<open>minPolarAngle \<le> \<pi> - 0.000001\<close>, then after \<^verbatim>\<open>update()\<close>, and after any non-empty sequence
  of rotate moves on an element of positive height, \<^verbatim>\<open>getPolarAngle()\<close> lies within the
  limits and is neither \<open>0\<close> nor \<open>\<pi>\<close>.
\<close>

theorem C3_polar_within_limits:
  assumes "0 < minPolarAngle this" and "minPolarAngle this \<le> maxPolarAngle this"
    and "maxPolarAngle this < pi"
    and "0.000001 \<le> maxPolarAngle this" and "minPolarAngle this \<le> pi - 0.000001"
  shows "polar_within_limits (update this)
       \<and> (0 < clientHeight this \<and> evs \<noteq> [] \<longrightarrow>
            polar_within_limits (foldl handleMouseMoveRotate this evs))"
proof -
  have "polar_within_limits (foldl handleMouseMoveRotate this evs)" if ne: "evs \<noteq> []"
  proof -
    obtain es e where evs: "evs = es @ [e]"
      using ne by (cases evs rule: rev_cases) auto
    let ?t = "handleMouseMoveRotate_pending (foldl handleMouseMoveRotate this es) e"
    have k: "minPolarAngle ?t = minPolarAngle this" "maxPolarAngle ?t = maxPolarAngle this"
      by (simp_all add: rotate_pending_keeps rotate_gestures_keep)
    have "polar_within_limits (update ?t)"
      using assms(2,4,5) by (intro update_polar_within_limits) (simp_all add: k)
    then show ?thesis
      by (simp add: evs handleMouseMoveRotate_def)
  qed
  moreover have "polar_within_limits (update this)"
    using assms(2,4,5) by (rule update_polar_within_limits)
  ultimately show ?thesis by simp
qed

text \<open>The hypotheses of C3 hold for the limits \<open>1/2\<close> and \<open>3/2\<close> and one rotate move.\<close>

theorem C3_polar_within_limits_witness:
  "0 < minPolarAngle c3_witness_controls
   \<and> minPolarAngle c3_witness_controls \<le> maxPolarAngle c3_witness_controls
   \<and> maxPolarAngle c3_witness_controls < pi
   \<and> 0.000001 \<le> maxPolarAngle c3_witness_controls
   \<and> minPolarAngle c3_witness_controls \<le> pi - 0.000001
   \<and> [example_drag] \<noteq> [] \<and> 0 < clientHeight c3_witness_controls
   \<and> polar_within_limits (update c3_witness_controls)
   \<and> polar_within_limits (foldl handleMouseMoveRotate c3_witness_controls [example_drag])"
proof -
  have a: "0 < minPolarAngle c3_witness_controls"
    and b: "minPolarAngle c3_witness_controls \<le> maxPolarAngle c3_witness_controls"
    and c: "maxPolarAngle c3_witness_controls < pi"
    and d: "0.000001 \<le> maxPolarAngle c3_witness_controls"
    and e: "minPolarAngle c3_witness_controls \<le> pi - 0.000001"
    using pi_ge_two pi_less_4 by (simp_all add: c3_witness_controls_def)
  have f: "[example_drag] \<noteq> []" by simp
  have g: "0 < clientHeight c3_witness_controls"
    by (simp add: c3_witness_controls_def example_controls_fields)
  show ?thesis
    using C3_polar_within_limits [OF a b c d e, of "[example_drag]"] a b c d e g by simp
qed

text \<open>
  Limits inside \<open>(0, \<pi>)\<close> but below the safe zone: \<^verbatim>\<open>makeSafe\<close> lifts the angle to
  \<open>0.000001\<close>, above \<open>maxPolarAngle\<close>.
\<close>

theorem C3_counterexample:
  "0 < minPolarAngle c3_controls \<and> minPolarAngle c3_controls \<le> maxPolarAngle c3_controls
   \<and> maxPolarAngle c3_controls < pi \<and> 0 < clientHeight c3_controls
   \<and> \<not> polar_within_limits (foldl handleMouseMoveRotate c3_controls [example_drag])"
proof -
  have "0.000001 \<le> getPolarAngle (update (handleMouseMoveRotate_pending c3_controls example_drag))"
    by (rule update_polar_safe)
  then have "\<not> polar_within_limits (handleMouseMoveRotate c3_controls example_drag)"
    by (simp add: polar_within_limits_def handleMouseMoveRotate_def update_keeps
        rotate_pending_keeps c3_controls_def)
  then show ?thesis
    using pi_ge_two pi_less_4 by (simp add: c3_controls_def example_controls_fields)
qed

section \<open>The height of the target\<close>

text \<open>
  Claim C4: \<open>MIN_TARGET_HEIGHT\<close> is \<open>0.1\<close>, and the target is at least that high after
  \<^verbatim>\<open>update()\<close> from any state; so, on an element of positive height, after a mouse pan move
  with any event and after \<^verbatim>\<open>pan\<close> by any amounts, however far downwards, followed by
  \<^verbatim>\<open>update()\<close>.
\<close>

theorem C4_target_height:
  "MIN_TARGET_HEIGHT = 0.1
   \<and> MIN_TARGET_HEIGHT \<le> y3 (target (update this))
   \<and> (0 < clientHeight this \<longrightarrow>
        MIN_TARGET_HEIGHT \<le> y3 (target (handleMouseMovePan this event))
        \<and> MIN_TARGET_HEIGHT \<le> y3 (target (update (pan this dX dY))))"
  by (simp add: handleMouseMovePan_def update_fields update_target5_height)
    (simp add: MIN_TARGET_HEIGHT_def)

text \<open>A pan move on the example controller, and a pan far downwards.\<close>

theorem C4_target_height_witness:
  "0 < clientHeight example_controls
   \<and> 0.1 \<le> y3 (target (update example_controls))
   \<and> 0.1 \<le> y3 (target (handleMouseMovePan example_controls example_drag))
   \<and> 0.1 \<le> y3 (target (update (pan example_controls 0 (- 1000000))))"
proof -
  have h: "0 < clientHeight example_controls"
    by (simp add: example_controls_fields)
  show ?thesis
    using C4_target_height [of example_controls example_drag 0 "- 1000000"] h by simp
qed

section \<open>The azimuthal angle on a wrapped interval\<close>

lemma update_azimuth: "getAzimuthalAngle (update this) = update_theta2 this"
  by (simp add: getAzimuthalAngle_def update_fields update_sph2_def update_sph1_def Spherical_makeSafe_def)

lemma sqrt_25: "sqrt 25 = 5"
  by (rule real_sqrt_unique) simp_all

lemma c5_theta1: "update_theta1 c5_controls = pi"
proof -
  have q: "update_quat c5_controls = Quaternion 0 0 0 1"
    by (simp add: update_quat_def c5_controls_def example_camera_def
        Quaternion_setFromUnitVectors_def Number_EPSILON_def Quaternion_normalize_def
        Quaternion_length_def)
  have o: "update_offset c5_controls = Vector3 0 0 (- 5)"
    unfolding update_offset_def q
    by (simp add: c5_controls_def example_camera_def Vector3_sub_def Vector3_applyQuaternion_def)
  have d: "sphericalDelta c5_controls = Spherical 0 0 0"
    by (simp add: c5_controls_def example_controls_fields)
  show ?thesis
    unfolding update_theta1_def o d
    by (simp add: Spherical_setFromVector3_def sqrt_25 Math_atan2_def)
qed

lemma update_wrapped_azimuth:
  assumes "minAzimuthAngle this = Lower a" and "maxAzimuthAngle this = Upper b"
    and "- pi \<le> a" and "a \<le> pi" and "- pi \<le> b" and "b \<le> pi" and "b < a"
  shows "getAzimuthalAngle (update this) =
           (if update_theta1 this > (a + b) / 2 then max a (update_theta1 this)
            else min b (update_theta1 this))"
  using assms(3-7) by (simp add: update_azimuth update_theta2_def assms(1,2) Let_def)

lemma degrees_170:
  "- pi \<le> 170 * pi / 180" "170 * pi / 180 \<le> pi"
  "- pi \<le> - 170 * pi / 180" "- 170 * pi / 180 \<le> pi"
  "- 170 * pi / 180 < 170 * pi / 180"
  using pi_gt_zero by linarith+

text \<open>
  Claim C5, amended: with \<open>minAzimuthAngle\<close> 170 degrees and \<open>maxAzimuthAngle\<close> -170 degrees
  \<^verbatim>\<open>update()\<close> accepts the limits and resolves the azimuth \<open>\<theta>\<close> it starts from by the rule
  \<^verbatim>\<open>theta > (min + max) / 2 ? Math.max(min, theta) : Math.min(max, theta)\<close>. An azimuth of 180
  degrees lies inside the wrapped interval, takes the first branch and stays 180 degrees.
\<close>

theorem C5_wrapped_azimuth:
  assumes "minAzimuthAngle this = Lower (170 * pi / 180)"
    and "maxAzimuthAngle this = Upper (- 170 * pi / 180)"
  shows "getAzimuthalAngle (update this) =
           (if update_theta1 this > (170 * pi / 180 + (- 170 * pi / 180)) / 2
            then max (170 * pi / 180) (update_theta1 this)
            else min (- 170 * pi / 180) (update_theta1 this))
       \<and> (update_theta1 this = pi \<longrightarrow> getAzimuthalAngle (update this) = pi)"
proof -
  have 1: "getAzimuthalAngle (update this) =
           (if update_theta1 this > (170 * pi / 180 + (- 170 * pi / 180)) / 2
            then max (170 * pi / 180) (update_theta1 this)
            else min (- 170 * pi / 180) (update_theta1 this))"
    using assms degrees_170 by (rule update_wrapped_azimuth)
  have 2: "getAzimuthalAngle (update this) = pi" if "update_theta1 this = pi"
    unfolding 1 that using pi_gt_zero by simp
  show ?thesis
    using 1 2 by blast
qed

lemma c5_limits:
  "minAzimuthAngle c5_controls = Lower (170 * pi / 180)"
  "maxAzimuthAngle c5_controls = Upper (- 170 * pi / 180)"
  by (simp_all add: c5_controls_def)

text \<open>The camera straight behind the target enters with 180 degrees and keeps them.\<close>

theorem C5_wrapped_azimuth_witness:
  "minAzimuthAngle c5_controls = Lower (170 * pi / 180)
   \<and> maxAzimuthAngle c5_controls = Upper (- 170 * pi / 180)
   \<and> update_theta1 c5_controls = pi
   \<and> getAzimuthalAngle (update c5_controls) = pi"
  using C5_wrapped_azimuth [OF c5_limits] c5_limits c5_theta1 by blast

text \<open>For that input the resolved azimuth is neither of the two bounds.\<close>

theorem C5_counterexample:
  "minAzimuthAngle c5_controls = Lower (170 * pi / 180)
   \<and> maxAzimuthAngle c5_controls = Upper (- 170 * pi / 180)
   \<and> update_theta1 c5_controls = pi
   \<and> getAzimuthalAngle (update c5_controls) \<noteq> 170 * pi / 180
   \<and> getAzimuthalAngle (update c5_controls) \<noteq> - 170 * pi / 180"
proof -
  have "getAzimuthalAngle (update c5_controls) = pi"
    unfolding update_wrapped_azimuth [OF c5_limits degrees_170] c5_theta1
    using pi_gt_zero by simp
  moreover have "pi \<noteq> 170 * pi / 180" "pi \<noteq> - 170 * pi / 180"
    using pi_gt_zero by linarith+
  ultimately show ?thesis
    using c5_limits c5_theta1 by simp
qed

section \<open>Rotate moves and wheel events\<close>

lemma rotate_pending_theta:
  "theta (sphericalDelta (handleMouseMoveRotate_pending this event)) =
     theta (sphericalDelta this)
       - 2 * pi * (clientX event - x2 (rotateStart this)) * rotateSpeed this / real (clientHeight this)"
  by (simp add: handleMouseMoveRotate_pending_def Let_def rotateLeft_def rotateUp_def TWO_PI_def
      Vector2_multiplyScalar_def Vector2_subVectors_def)

text \<open>
  Claim C6, amended: on an element of positive height \<open>h\<close> a rotate move of horizontal pixel
  delta \<open>dx\<close> with rotate speed \<open>r\<close> subtracts \<open>2\<pi> dx r / h\<close> from the pending azimuthal delta
  that \<^verbatim>\<open>update()\<close> then consumes; the width of the element plays no part.
\<close>

theorem C6_rotate_delta:
  assumes "0 < clientHeight this"
  shows "handleMouseMoveRotate this event = update (handleMouseMoveRotate_pending this event)
       \<and> theta (sphericalDelta (handleMouseMoveRotate_pending this event)) =
           theta (sphericalDelta this)
             - 2 * pi * (clientX event - x2 (rotateStart this)) * rotateSpeed this
                 / real (clientHeight this)"
  by (simp add: handleMouseMoveRotate_def rotate_pending_theta)

lemma c6_fields:
  "clientHeight c6_controls = 500" "rotateSpeed c6_controls = 1"
  "rotateStart c6_controls = Vector2 100 100" "sphericalDelta c6_controls = Spherical 0 0 0"
  "state c6_controls = ROTATE" "controlActive c6_controls = False"
  by (simp_all add: c6_controls_def example_controls_fields)

lemma example_drag_fields: "clientX example_drag = 150" "clientY example_drag = 100"
  by (simp_all add: example_drag_def)

text \<open>For \<open>dx = 50\<close>, \<open>h = 500\<close> and \<open>r = 1\<close> the pending delta goes from \<open>0\<close> to \<open>-0.2 \<pi>\<close>.\<close>

theorem C6_rotate_delta_witness:
  "0 < clientHeight c6_controls
   \<and> clientX example_drag - x2 (rotateStart c6_controls) = 50
   \<and> clientHeight c6_controls = 500 \<and> rotateSpeed c6_controls = 1
   \<and> theta (sphericalDelta c6_controls) = 0
   \<and> theta (sphericalDelta (handleMouseMoveRotate_pending c6_controls example_drag)) = - (0.2 * pi)"
proof -
  have h: "0 < clientHeight c6_controls"
    by (simp add: c6_fields)
  show ?thesis
    using C6_rotate_delta [OF h, of example_drag]
    by (simp add: c6_fields example_drag_fields)
qed

text \<open>For that input the move does not add \<open>2\<pi> dx r / h\<close> to the pending delta.\<close>

theorem C6_counterexample:
  "clientX example_drag - x2 (rotateStart c6_controls) = 50
   \<and> clientHeight c6_controls = 500 \<and> rotateSpeed c6_controls = 1
   \<and> theta (sphericalDelta (handleMouseMoveRotate_pending c6_controls example_drag))
       \<noteq> theta (sphericalDelta c6_controls) + 2 * pi * 50 * 1 / 500"
proof -
  have "theta (sphericalDelta (handleMouseMoveRotate_pending c6_controls example_drag)) = - (pi / 5)"
    by (simp add: rotate_pending_theta c6_fields example_drag_fields)
  moreover have "- (pi / 5) \<noteq> 0 + 2 * pi * 50 * 1 / 500"
    using pi_gt_zero by linarith
  ultimately show ?thesis
    by (simp add: c6_fields example_drag_fields)
qed

text \<open>
  Claim C7: a wheel event in a state other than \<open>NONE\<close> changes nothing. In state \<open>NONE\<close> it
  dispatches \<open>Start\<close>, multiplies (negative \<open>deltaY\<close>, dolly in) or divides (positive \<open>deltaY\<close>,
  dolly out) the pending scale by \<open>0.95\<close> to the power \<open>zoomSpeed * |normalizedDelta| / 100\<close>,
  calls \<^verbatim>\<open>update()\<close> and dispatches \<open>End\<close>. \<open>controlActive\<close> is never assigned by the
  controller, so it is false.
\<close>

theorem C7_wheel:
  assumes "\<not> controlActive this"
  shows "(state this \<noteq> NONE \<longrightarrow> onMouseWheel this event = this)
       \<and> (state this = NONE \<longrightarrow>
            onMouseWheel this event =
              dispatchEvent
                (update ((dispatchEvent this Start)
                   \<lparr>scale :=
                      (if deltaY event < 0
                       then scale this * 0.95 powr (zoomSpeed this * \<bar>normalizedDelta event\<bar> / 100)
                       else if deltaY event > 0
                       then scale this / 0.95 powr (zoomSpeed this * \<bar>normalizedDelta event\<bar> / 100)
                       else scale this)\<rparr>))
                End)"
proof -
  have c: "\<not> controlActive (dispatchEvent this Start)"
    using assms by (simp add: dispatchEvent_def)
  have s: "scale (dispatchEvent this Start) = scale this"
    "zoomSpeed (dispatchEvent this Start) = zoomSpeed this"
    by (simp_all add: dispatchEvent_def)
  have u: "(dispatchEvent this Start)\<lparr>scale := scale this\<rparr> = dispatchEvent this Start"
    by (simp add: dispatchEvent_def)
  show ?thesis
    using c
    by (auto simp add: onMouseWheel_def Let_def handleMouseWheel_def handleMouseWheel_pending_def
        dollyIn_def dollyOut_def getZoomScale_def Math_pow_def normalizedDelta_def s u
        abs_mult mult_less_0_iff zero_less_mult_iff)
qed

text \<open>An accepted wheel event on the idle example controller, and one ignored during a drag.\<close>

theorem C7_wheel_witness:
  "\<not> controlActive example_controls \<and> state example_controls = NONE
   \<and> deltaY example_wheel > 0 \<and> normalizedDelta example_wheel = 100
   \<and> onMouseWheel example_controls example_wheel =
       dispatchEvent
         (update ((dispatchEvent example_controls Start)\<lparr>scale := 1 / 0.95 powr 1\<rparr>)) End
   \<and> \<not> controlActive c6_controls \<and> state c6_controls \<noteq> NONE
   \<and> onMouseWheel c6_controls example_wheel = c6_controls"
proof -
  have a: "\<not> controlActive example_controls" and b: "\<not> controlActive c6_controls"
    by (simp_all add: example_controls_fields c6_fields)
  have n: "normalizedDelta example_wheel = 100" "deltaY example_wheel = 100"
    by (simp_all add: normalizedDelta_def example_wheel_def)
  show ?thesis
    using C7_wheel [OF a, of example_wheel] C7_wheel [OF b, of example_wheel] a b
    by (simp add: example_controls_fields c6_fields n)
qed

section \<open>Two-finger dolly\<close>

lemma pan_keeps:
  "scale (pan this dX dY) = scale this"
  "camera (pan this dX dY) = camera this"
  "target (pan this dX dY) = target this"
  "minDistance (pan this dX dY) = minDistance this"
  "maxDistance (pan this dX dY) = maxDistance this"
  by (simp_all add: pan_def panLeft_def panUp_def Let_def)

lemma update_offset_cong:
  "camera t = camera this \<Longrightarrow> target t = target this \<Longrightarrow> update_offset t = update_offset this"
  by (simp add: update_offset_def update_quat_def)

lemma clampDistance_cong:
  "minDistance t = minDistance this \<Longrightarrow> maxDistance t = maxDistance this
   \<Longrightarrow> clampDistance t = clampDistance this"
  by (simp add: clampDistance_def fun_eq_iff)

lemma getSecondPointerPosition_cong:
  "pointers t = pointers this \<Longrightarrow> pointerPositions t = pointerPositions this
   \<Longrightarrow> getSecondPointerPosition t event = getSecondPointerPosition this event"
  by (simp add: getSecondPointerPosition_def cong: option.case_cong)

lemma handleTouchMoveDolly_Some:
  assumes "getSecondPointerPosition this event = Some p"
  shows "\<exists>t. handleTouchMoveDolly this event = Inr t
           \<and> scale t = scale this /
                 Math_pow (sqrt ((pageX event - x2 p) * (pageX event - x2 p)
                                 + (pageY event - y2 p) * (pageY event - y2 p))
                           / y2 (dollyStart this)) (zoomSpeed this)
           \<and> camera t = camera this \<and> target t = target this
           \<and> minDistance t = minDistance this \<and> maxDistance t = maxDistance this
           \<and> pointers t = pointers this \<and> pointerPositions t = pointerPositions this"
  by (simp add: handleTouchMoveDolly_def assms Let_def dollyOut_def)

lemma handleTouchMovePan_Some:
  assumes "getSecondPointerPosition this event = Some p"
  shows "\<exists>t. handleTouchMovePan this event = Inr t
           \<and> scale t = scale this
           \<and> camera t = camera this \<and> target t = target this
           \<and> minDistance t = minDistance this \<and> maxDistance t = maxDistance this"
proof (cases "length (pointers this) = 1")
  case True
  then show ?thesis
    by (simp add: handleTouchMovePan_def Let_def pan_keeps)
next
  case False
  then show ?thesis
    by (simp add: handleTouchMovePan_def assms Let_def pan_keeps)
qed

lemma touch_dolly_pan_step:
  assumes "getSecondPointerPosition this event = Some p"
  shows "\<exists>t. handleTouchMoveDollyPan this event = Inr t
           \<and> scale t = scale this /
                 Math_pow (sqrt ((pageX event - x2 p) * (pageX event - x2 p)
                                 + (pageY event - y2 p) * (pageY event - y2 p))
                           / y2 (dollyStart this)) (zoomSpeed this)
           \<and> camera t = camera this \<and> target t = target this
           \<and> minDistance t = minDistance this \<and> maxDistance t = maxDistance this"
proof -
  obtain t1 where t1: "handleTouchMoveDolly this event = Inr t1"
    "scale t1 = scale this /
                 Math_pow (sqrt ((pageX event - x2 p) * (pageX event - x2 p)
                                 + (pageY event - y2 p) * (pageY event - y2 p))
                           / y2 (dollyStart this)) (zoomSpeed this)"
    "camera t1 = camera this" "target t1 = target this"
    "minDistance t1 = minDistance this" "maxDistance t1 = maxDistance this"
    "pointers t1 = pointers this" "pointerPositions t1 = pointerPositions this"
    using handleTouchMoveDolly_Some [OF assms] by blast
  have "getSecondPointerPosition t1 event = Some p"
    unfolding getSecondPointerPosition_cong [OF t1(7,8), of event] by (rule assms)
  then obtain t2 where t2: "handleTouchMovePan t1 event = Inr t2" "scale t2 = scale t1"
    "camera t2 = camera t1" "target t2 = target t1"
    "minDistance t2 = minDistance t1" "maxDistance t2 = maxDistance t1"
    using handleTouchMovePan_Some by blast
  show ?thesis
    by (simp add: handleTouchMoveDollyPan_def t1 t2)
qed

lemma trackPointer_keeps:
  "state (trackPointer this event) = state this"
  "scale (trackPointer this event) = scale this"
  "camera (trackPointer this event) = camera this"
  "target (trackPointer this event) = target this"
  "minDistance (trackPointer this event) = minDistance this"
  "maxDistance (trackPointer this event) = maxDistance this"
  "dollyStart (trackPointer this event) = dollyStart this"
  "zoomSpeed (trackPointer this event) = zoomSpeed this"
  "pointers (trackPointer this event) = pointers this"
  by (simp_all add: trackPointer_def)

text \<open>
  Claim C8: in state \<open>TOUCH_DOLLY_PAN\<close>, a touch move for which the other contact is tracked
  at \<open>p\<close>, with the separation \<open>s0 > 0\<close> stored in \<open>dollyStart\<close> and the new separation \<open>s1 > 0\<close>,
  applies the factor \<open>(s1 / s0)\<close> to the power \<open>zoomSpeed\<close> once, as \<^verbatim>\<open>dollyOut\<close>: the pending
  scale is divided by it. The \<^verbatim>\<open>update()\<close> that follows multiplies the radius by that scale
  before clamping and resets the pending scale to 1.
\<close>

theorem C8_touch_dolly_scale:
  assumes "state this = TOUCH_DOLLY_PAN"
    and "getSecondPointerPosition (trackPointer this event) event = Some p"
    and "s0 = y2 (dollyStart this)" and "0 < s0"
    and "s1 = sqrt ((pageX event - x2 p) * (pageX event - x2 p)
                    + (pageY event - y2 p) * (pageY event - y2 p))" and "0 < s1"
  shows "\<exists>t. handleTouchMoveDollyPan (trackPointer this event) event = Inr t
           \<and> scale t = scale this / (s1 / s0) powr zoomSpeed this
           \<and> onTouchMove this event = Inr (update t)
           \<and> radius (spherical (update t)) =
               clampDistance this
                 (Vector3_length (update_offset this) * (scale this / (s1 / s0) powr zoomSpeed this))
           \<and> scale (update t) = 1"
proof -
  let ?this1 = "trackPointer this event"
  obtain t where t: "handleTouchMoveDollyPan ?this1 event = Inr t"
    "scale t = scale ?this1 /
                 Math_pow (sqrt ((pageX event - x2 p) * (pageX event - x2 p)
                                 + (pageY event - y2 p) * (pageY event - y2 p))
                           / y2 (dollyStart ?this1)) (zoomSpeed ?this1)"
    "camera t = camera ?this1" "target t = target ?this1"
    "minDistance t = minDistance ?this1" "maxDistance t = maxDistance ?this1"
    using touch_dolly_pan_step [OF assms(2)] by blast
  have s: "scale t = scale this / (s1 / s0) powr zoomSpeed this"
    by (simp add: t(2) trackPointer_keeps Math_pow_def assms(3,5))
  have m: "onTouchMove this event = Inr (update t)"
    by (simp add: onTouchMove_def Let_def trackPointer_keeps assms(1) t(1))
  have o: "update_offset t = update_offset this"
    by (rule update_offset_cong) (simp_all add: t trackPointer_keeps)
  have c: "clampDistance t = clampDistance this"
    by (rule clampDistance_cong) (simp_all add: t trackPointer_keeps)
  have "radius (spherical (update t)) =
          clampDistance this
            (Vector3_length (update_offset this) * (scale this / (s1 / s0) powr zoomSpeed this))"
    by (simp add: update_radius o c s)
  then show ?thesis
    using t(1) s m by (simp add: update_fields)
qed

lemma c8_fields:
  "state c8_controls = TOUCH_DOLLY_PAN" "dollyStart c8_controls = Vector2 0 100"
  "pointers c8_controls = [1, 2]" "zoomSpeed c8_controls = 1" "scale c8_controls = 1"
  "pointerPositions c8_controls = [1 \<mapsto> Vector2 100 100, 2 \<mapsto> Vector2 200 100]"
  "dispatched c8_controls = [Change]"
  by (simp_all add: c8_controls_def example_controls_fields)

lemma sqrt_22500: "sqrt 22500 = 150"
  by (rule real_sqrt_unique) simp_all

text \<open>Separation 100 moving to 150 with \<open>zoomSpeed = 1\<close>.\<close>

theorem C8_touch_dolly_scale_witness:
  "state c8_controls = TOUCH_DOLLY_PAN
   \<and> getSecondPointerPosition (trackPointer c8_controls c8_move) c8_move = Some (Vector2 100 100)
   \<and> y2 (dollyStart c8_controls) = 100
   \<and> sqrt ((pageX c8_move - 100) * (pageX c8_move - 100)
            + (pageY c8_move - 100) * (pageY c8_move - 100)) = 150
   \<and> zoomSpeed c8_controls = 1 \<and> scale c8_controls = 1
   \<and> (\<exists>t. handleTouchMoveDollyPan (trackPointer c8_controls c8_move) c8_move = Inr t
          \<and> scale t = 1 / (150 / 100) powr 1
          \<and> onTouchMove c8_controls c8_move = Inr (update t)
          \<and> scale (update t) = 1)"
proof -
  have a: "state c8_controls = TOUCH_DOLLY_PAN"
    by (simp add: c8_fields)
  have b: "getSecondPointerPosition (trackPointer c8_controls c8_move) c8_move = Some (Vector2 100 100)"
    by (simp add: getSecondPointerPosition_def trackPointer_def c8_fields c8_move_def at_index_def)
  have c: "(100::real) = y2 (dollyStart c8_controls)" and d: "(0::real) < 100"
    by (simp_all add: c8_fields)
  have e: "(150::real) = sqrt ((pageX c8_move - x2 (Vector2 100 100)) * (pageX c8_move - x2 (Vector2 100 100))
                    + (pageY c8_move - y2 (Vector2 100 100)) * (pageY c8_move - y2 (Vector2 100 100)))"
    and f: "(0::real) < 150"
    by (simp_all add: c8_move_def sqrt_22500)
  obtain t where t: "handleTouchMoveDollyPan (trackPointer c8_controls c8_move) c8_move = Inr t"
    "scale t = scale c8_controls / (150 / 100) powr zoomSpeed c8_controls"
    "onTouchMove c8_controls c8_move = Inr (update t)" "scale (update t) = 1"
    using C8_touch_dolly_scale [OF a b c d e f] by blast
  have g: "scale t = 1 / (150 / 100) powr 1"
    unfolding t(2) by (simp only: c8_fields)
  have h: "sqrt ((pageX c8_move - 100) * (pageX c8_move - 100)
            + (pageY c8_move - 100) * (pageY c8_move - 100)) = 150"
    by (simp add: c8_move_def sqrt_22500)
  have i: "y2 (dollyStart c8_controls) = 100" "zoomSpeed c8_controls = 1" "scale c8_controls = 1"
    by (simp_all add: c8_fields)
  show ?thesis
    using a b h i t(1,3,4) g by blast
qed

section \<open>Pointer up\<close>

lemma removePointer_fields:
  "pointers (removePointer this event) = remove1 (pointerId event) (pointers this)"
  "pointerPositions (removePointer this event) = (pointerPositions this)(pointerId event := None)"
  "dispatched (removePointer this event) = dispatched this"
  by (simp_all add: removePointer_def)

lemma onTouchStart_single:
  assumes "pointers this = [p]" and "pointerPositions this p = Some pos"
  shows "onTouchStart this \<lparr>pointerId = p, pageX = x2 pos, pageY = y2 pos\<rparr>
         = Inr (this\<lparr>state := TOUCH_ROTATE, rotateStart := pos,
                  dispatched := dispatched this @ [Start]\<rparr>)"
proof -
  have "(pointerPositions this)(p \<mapsto> pos) = pointerPositions this"
    using assms(2) by (simp add: map_upd_triv)
  then show ?thesis
    by (simp add: onTouchStart_def trackPointer_def Let_def assms(1) TOUCHES_ONE_def
        handleTouchStartRotate_def dispatchEvent_def)
qed

text \<open>The branches of \<^verbatim>\<open>onPointerUp\<close>, by the number of pointers left in the registry.\<close>

lemma onPointerUp_none_left:
  assumes "remove1 (pointerId event) (pointers this) = []"
  shows "onPointerUp this event =
           Inr (this\<lparr>pointerPositions := (pointerPositions this)(pointerId event := None),
                  pointers := [], listening := False,
                  dispatched := dispatched this @ [End], state := NONE\<rparr>)"
  using assms by (simp add: onPointerUp_def Let_def dispatchEvent_def removePointer_def)

lemma onPointerUp_one_left:
  assumes "remove1 (pointerId event) (pointers this) = [p]" and "p \<noteq> pointerId event"
    and "pointerPositions this p = Some pos"
  shows "onPointerUp this event =
           Inr (this\<lparr>pointerPositions := (pointerPositions this)(pointerId event := None),
                  pointers := [p], state := TOUCH_ROTATE, rotateStart := pos,
                  dispatched := dispatched this @ [Start]\<rparr>)"
proof -
  have a: "pointers (removePointer this event) = [p]"
    and b: "pointerPositions (removePointer this event) p = Some pos"
    using assms by (simp_all add: removePointer_fields)
  have "onPointerUp this event =
          onTouchStart (removePointer this event) \<lparr>pointerId = p, pageX = x2 pos, pageY = y2 pos\<rparr>"
    by (simp add: onPointerUp_def Let_def a b)
  also have "\<dots> = Inr ((removePointer this event)\<lparr>state := TOUCH_ROTATE, rotateStart := pos,
                  dispatched := dispatched (removePointer this event) @ [Start]\<rparr>)"
    by (rule onTouchStart_single [OF a b])
  also have "\<dots> = Inr (this\<lparr>pointerPositions := (pointerPositions this)(pointerId event := None),
                  pointers := [p], state := TOUCH_ROTATE, rotateStart := pos,
                  dispatched := dispatched this @ [Start]\<rparr>)"
    using assms(1) by (simp add: removePointer_def)
  finally show ?thesis .
qed

text \<open>
  A remaining pointer without a stored position (a mouse pointer: only touch pointers are
  tracked) makes the placeholder's \<^verbatim>\<open>position.x\<close> throw.
\<close>

lemma onPointerUp_untracked:
  assumes "remove1 (pointerId event) (pointers this) = [p]" and "p \<noteq> pointerId event"
    and "pointerPositions this p = None"
  shows "onPointerUp this event = Inl TypeError"
  using assms by (simp add: onPointerUp_def Let_def removePointer_fields)

lemma onPointerUp_more_left:
  assumes "2 \<le> length (remove1 (pointerId event) (pointers this))"
  shows "onPointerUp this event =
           Inr (this\<lparr>pointerPositions := (pointerPositions this)(pointerId event := None),
                  pointers := remove1 (pointerId event) (pointers this)\<rparr>)"
proof -
  have "length (pointers (removePointer this event)) \<noteq> 0"
    and "length (pointers (removePointer this event)) \<noteq> 1"
    using assms by (auto simp: removePointer_fields)
  then have "onPointerUp this event = Inr (removePointer this event)"
    by (simp add: onPointerUp_def Let_def)
  then show ?thesis
    by (simp add: removePointer_def)
qed

lemma remove1_singleton_other:
  assumes "distinct xs" and "remove1 x xs = [p]"
  shows "p \<noteq> x"
proof -
  have "p \<in> set (remove1 x xs)"
    by (simp add: assms(2))
  then show ?thesis
    using assms(1) by simp
qed

text \<open>
  Claim C9, amended: on pointer-up the released pointer is removed from the registry (whose
  ids are distinct) and its stored position is deleted. If the registry is then empty, the
  listeners are detached, \<open>End\<close> is dispatched and the state becomes \<open>NONE\<close>. If exactly one
  pointer \<open>p\<close> remains, with last known position \<open>pos\<close>, the state becomes \<open>TOUCH_ROTATE\<close> with
  \<open>rotateStart = pos\<close> and one further \<open>Start\<close> is dispatched, with no \<open>End\<close> before it. If two or
  more pointers remain, only the registry changes. In each case nothing else changes.
\<close>

theorem C9_pointer_up:
  assumes "distinct (pointers this)"
  shows "(onPointerUp this event = Inr t \<longrightarrow>
            pointers t = remove1 (pointerId event) (pointers this)
            \<and> pointerId event \<notin> set (pointers t)
            \<and> pointerPositions t = (pointerPositions this)(pointerId event := None))
       \<and> (remove1 (pointerId event) (pointers this) = [] \<longrightarrow>
            onPointerUp this event =
              Inr (this\<lparr>pointerPositions := (pointerPositions this)(pointerId event := None),
                     pointers := [], listening := False,
                     dispatched := dispatched this @ [End], state := NONE\<rparr>))
       \<and> (remove1 (pointerId event) (pointers this) = [p]
            \<and> pointerPositions this p = Some pos \<longrightarrow>
            onPointerUp this event =
              Inr (this\<lparr>pointerPositions := (pointerPositions this)(pointerId event := None),
                     pointers := [p], state := TOUCH_ROTATE, rotateStart := pos,
                     dispatched := dispatched this @ [Start]\<rparr>))
       \<and> (2 \<le> length (remove1 (pointerId event) (pointers this)) \<longrightarrow>
            onPointerUp this event =
              Inr (this\<lparr>pointerPositions := (pointerPositions this)(pointerId event := None),
                     pointers := remove1 (pointerId event) (pointers this)\<rparr>))"
proof -
  let ?rest = "remove1 (pointerId event) (pointers this)"
  have gone: "pointerId event \<notin> set ?rest"
    using assms by simp
  have 1: "pointers t = ?rest \<and> pointerId event \<notin> set (pointers t)
         \<and> pointerPositions t = (pointerPositions this)(pointerId event := None)"
    if r: "onPointerUp this event = Inr t"
  proof (cases ?rest)
    case Nil
    then show ?thesis
      using r gone onPointerUp_none_left [OF Nil] by auto
  next
    case (Cons q qs)
    show ?thesis
    proof (cases qs)
      case Nil
      then have one: "?rest = [q]"
        using Cons by simp
      have ne: "q \<noteq> pointerId event"
        using remove1_singleton_other [OF assms one] .
      show ?thesis
      proof (cases "pointerPositions this q")
        case None
        then show ?thesis
          using r onPointerUp_untracked [OF one ne] by simp
      next
        case (Some pos')
        then show ?thesis
          using r gone one onPointerUp_one_left [OF one ne Some] by auto
      qed
    next
      case (Cons q' qs')
      then have "2 \<le> length ?rest"
        using \<open>?rest = q # qs\<close> by simp
      then show ?thesis
        using r gone onPointerUp_more_left [of event this] by auto
    qed
  qed
  have 3: "onPointerUp this event =
              Inr (this\<lparr>pointerPositions := (pointerPositions this)(pointerId event := None),
                     pointers := [p], state := TOUCH_ROTATE, rotateStart := pos,
                     dispatched := dispatched this @ [Start]\<rparr>)"
    if one: "?rest = [p]" and pos: "pointerPositions this p = Some pos"
    using onPointerUp_one_left [OF one remove1_singleton_other [OF assms one] pos] .
  show ?thesis
    using 1 3 onPointerUp_none_left [of event this] onPointerUp_more_left [of event this]
    by blast
qed

lemma c9_fields:
  "pointers c9_one_finger = [1]" "pointerPositions c9_one_finger = [1 \<mapsto> Vector2 100 100]"
  "dispatched c9_one_finger = [Change, Start]"
  by (simp_all add: c9_one_finger_def)

lemma c9_two_fingers_fields:
  "pointers c9_two_fingers = [1, 2]"
  "pointerPositions c9_two_fingers = [1 \<mapsto> Vector2 100 100, 2 \<mapsto> Vector2 200 100]"
  "dispatched c9_two_fingers = [Change, Start, Start]"
  "rotateStart c9_two_fingers = Vector2 100 100"
  by (simp_all add: c9_two_fingers_def c9_one_finger_def)

lemma c9_three_fingers_fields:
  "pointers c9_three_fingers = [1, 2, 3]"
  "pointerPositions c9_three_fingers =
     [1 \<mapsto> Vector2 100 100, 2 \<mapsto> Vector2 200 100, 3 \<mapsto> Vector2 300 100]"
  by (simp_all add: c9_three_fingers_def)

lemma c9_after_up_eq:
  "c9_two_fingers\<lparr>pointerPositions := (pointerPositions c9_two_fingers)(pointerId touch_b := None),
     pointers := [1], state := TOUCH_ROTATE, rotateStart := Vector2 100 100,
     dispatched := dispatched c9_two_fingers @ [Start]\<rparr> = c9_after_up"
proof -
  have "(pointerPositions c9_two_fingers)(pointerId touch_b := None)
          = [(1::nat) \<mapsto> Vector2 100 100]"
    by (rule ext) (simp add: c9_two_fingers_fields touch_b_def)
  then show ?thesis
    by (intro controls.equality) (simp_all add: c9_after_up_def c9_two_fingers_fields)
qed

text \<open>
  Lifting the only finger; lifting the second of two fingers, which leaves contact 1 at
  \<open>(100, 100)\<close>; lifting the third of three fingers.
\<close>

theorem C9_pointer_up_witness:
  "distinct (pointers c9_one_finger) \<and> remove1 (pointerId c9_up) (pointers c9_one_finger) = []
   \<and> onPointerUp c9_one_finger c9_up =
       Inr (c9_one_finger\<lparr>pointerPositions := Map.empty, pointers := [], listening := False,
              dispatched := [Change, Start, End], state := NONE\<rparr>)
   \<and> distinct (pointers c9_two_fingers)
   \<and> remove1 (pointerId touch_b) (pointers c9_two_fingers) = [1]
   \<and> pointerPositions c9_two_fingers 1 = Some (Vector2 100 100)
   \<and> onPointerUp c9_two_fingers touch_b = Inr c9_after_up
   \<and> pointers c9_after_up = [1] \<and> pointerId touch_b \<notin> set (pointers c9_after_up)
   \<and> pointerPositions c9_after_up (pointerId touch_b) = None
   \<and> state c9_after_up = TOUCH_ROTATE \<and> rotateStart c9_after_up = Vector2 100 100
   \<and> dispatched c9_after_up = dispatched c9_two_fingers @ [Start]
   \<and> distinct (pointers c9_three_fingers)
   \<and> 2 \<le> length (remove1 (pointerId touch_c) (pointers c9_three_fingers))
   \<and> onPointerUp c9_three_fingers touch_c =
       Inr (c9_three_fingers\<lparr>pointerPositions := [1 \<mapsto> Vector2 100 100, 2 \<mapsto> Vector2 200 100],
              pointers := [1, 2]\<rparr>)"
proof -
  have a: "distinct (pointers c9_one_finger)" and b: "distinct (pointers c9_two_fingers)"
    and c: "distinct (pointers c9_three_fingers)"
    by (simp_all add: c9_fields c9_two_fingers_fields c9_three_fingers_fields)
  note up_a = C9_pointer_up [OF a, where event = c9_up and t = c9_one_finger and p = 0
      and pos = "Vector2 0 0"]
  note up_b = C9_pointer_up [OF b, where event = touch_b and t = c9_after_up and p = 1
      and pos = "Vector2 100 100"]
  note up_c = C9_pointer_up [OF c, where event = touch_c and t = c9_three_fingers and p = 0
      and pos = "Vector2 0 0"]
  have a1: "remove1 (pointerId c9_up) (pointers c9_one_finger) = []"
    by (simp add: c9_fields c9_up_def)
  have a2: "(pointerPositions c9_one_finger)(pointerId c9_up := None) = Map.empty"
    by (simp add: c9_fields c9_up_def)
  have a0: "onPointerUp c9_one_finger c9_up =
       Inr (c9_one_finger\<lparr>pointerPositions := (pointerPositions c9_one_finger)(pointerId c9_up := None),
              pointers := [], listening := False,
              dispatched := dispatched c9_one_finger @ [End], state := NONE\<rparr>)"
    using up_a a1 by blast
  have a3: "onPointerUp c9_one_finger c9_up =
       Inr (c9_one_finger\<lparr>pointerPositions := Map.empty, pointers := [], listening := False,
              dispatched := [Change, Start, End], state := NONE\<rparr>)"
    unfolding a0 a2 by (simp only: c9_fields(3) append.simps)
  have b1: "remove1 (pointerId touch_b) (pointers c9_two_fingers) = [1]"
    by (simp add: c9_two_fingers_fields touch_b_def)
  have b2: "pointerPositions c9_two_fingers 1 = Some (Vector2 100 100)"
    by (simp add: c9_two_fingers_fields)
  have "onPointerUp c9_two_fingers touch_b =
       Inr (c9_two_fingers\<lparr>pointerPositions :=
                (pointerPositions c9_two_fingers)(pointerId touch_b := None),
              pointers := [1], state := TOUCH_ROTATE, rotateStart := Vector2 100 100,
              dispatched := dispatched c9_two_fingers @ [Start]\<rparr>)"
    using up_b b1 b2 by blast
  then have b3: "onPointerUp c9_two_fingers touch_b = Inr c9_after_up"
    by (simp only: c9_after_up_eq)
  have b4: "pointers c9_after_up = [1]" "pointerId touch_b \<notin> set (pointers c9_after_up)"
    "pointerPositions c9_after_up (pointerId touch_b) = None"
    "state c9_after_up = TOUCH_ROTATE" "rotateStart c9_after_up = Vector2 100 100"
    "dispatched c9_after_up = dispatched c9_two_fingers @ [Start]"
    by (simp_all add: c9_after_up_def c9_two_fingers_fields touch_b_def)
  have c0: "remove1 (pointerId touch_c) (pointers c9_three_fingers) = [1, 2]"
    by (simp add: c9_three_fingers_fields touch_c_def)
  have c1: "2 \<le> length (remove1 (pointerId touch_c) (pointers c9_three_fingers))"
    by (simp add: c0)
  have c2: "(pointerPositions c9_three_fingers)(pointerId touch_c := None)
              = [1 \<mapsto> Vector2 100 100, 2 \<mapsto> Vector2 200 100]"
    by (rule ext) (simp add: c9_three_fingers_fields touch_c_def)
  have "onPointerUp c9_three_fingers touch_c =
       Inr (c9_three_fingers\<lparr>pointerPositions :=
                (pointerPositions c9_three_fingers)(pointerId touch_c := None),
              pointers := remove1 (pointerId touch_c) (pointers c9_three_fingers)\<rparr>)"
    using up_c c1 by blast
  then have c3: "onPointerUp c9_three_fingers touch_c =
       Inr (c9_three_fingers\<lparr>pointerPositions := [1 \<mapsto> Vector2 100 100, 2 \<mapsto> Vector2 200 100],
              pointers := [1, 2]\<rparr>)"
    by (simp only: c0 c2)
  show ?thesis
    by (intro conjI a a1 a3 b b1 b2 b3 b4 c c1 c3)
qed

text \<open>
  The specification's "without duplicating events" fails on a run the page can produce: one
  finger down, a second finger down, the second finger up. Each of the three calls of
  \<^verbatim>\<open>onTouchStart\<close> dispatches \<open>Start\<close>, the last of them from \<^verbatim>\<open>onPointerUp\<close>, and no \<open>End\<close> comes
  between them.
\<close>

lemma sqrt_10000: "sqrt 10000 = 100"
  using real_sqrt_abs2 [of 100] by simp

lemma example_controls_pointerPositions: "pointerPositions example_controls = Map.empty"
  by (simp add: example_controls_def OrbitControls_def update_keeps)

lemma onPointerDown_first_finger: "onPointerDown example_controls touch_a = Inr c9_one_finger"
  by (simp add: onPointerDown_def Let_def isTrackingPointer_def addPointer_def onTouchStart_def
      trackPointer_def TOUCHES_ONE_def handleTouchStartRotate_def dispatchEvent_def
      example_controls_fields touch_a_def,
      intro controls.equality,
      simp_all add: c9_one_finger_def example_controls_pointerPositions)

lemma onPointerDown_second_finger: "onPointerDown c9_one_finger touch_b = Inr c9_two_fingers"
  by (simp add: onPointerDown_def Let_def isTrackingPointer_def addPointer_def onTouchStart_def
      trackPointer_def TOUCHES_TWO_def handleTouchStartDollyPan_def handleTouchStartDolly_def
      handleTouchStartPan_def getSecondPointerPosition_def at_index_def dispatchEvent_def
      touch_b_def c9_fields sqrt_10000,
      intro controls.equality,
      simp_all add: c9_two_fingers_def c9_one_finger_def)

theorem C9_counterexample:
  "onPointerDown example_controls touch_a = Inr c9_one_finger
   \<and> onPointerDown c9_one_finger touch_b = Inr c9_two_fingers
   \<and> remove1 (pointerId touch_b) (pointers c9_two_fingers) = [1]
   \<and> onPointerUp c9_two_fingers touch_b = Inr c9_after_up
   \<and> dispatched c9_two_fingers = [Change, Start, Start]
   \<and> dispatched c9_after_up = [Change, Start, Start, Start]
   \<and> duplicates_start c9_two_fingers c9_after_up"
proof -
  have one: "remove1 (pointerId touch_b) (pointers c9_two_fingers) = [1]"
    by (simp add: c9_two_fingers_fields touch_b_def)
  have ne: "(1::nat) \<noteq> pointerId touch_b"
    by (simp add: touch_b_def)
  have pos: "pointerPositions c9_two_fingers 1 = Some (Vector2 100 100)"
    by (simp add: c9_two_fingers_fields)
  have up: "onPointerUp c9_two_fingers touch_b = Inr c9_after_up"
    by (rule onPointerUp_one_left [OF one ne pos, unfolded c9_after_up_eq])
  have d: "dispatched c9_after_up = [Change, Start, Start, Start]"
    by (simp add: c9_after_up_def)
  have "duplicates_start c9_two_fingers c9_after_up"
    by (simp add: duplicates_start_def gesture_open_def d c9_two_fingers_fields)
  then show ?thesis
    by (intro conjI onPointerDown_first_finger onPointerDown_second_finger one up d
        c9_two_fingers_fields)
qed

section \<open>The \<open>enableDamping\<close> flag\<close>

text \<open>
  No definition reads \<open>enableDamping\<close>: each operation commutes with setting it.
\<close>

lemma update_quat_damping: "update_quat (this\<lparr>enableDamping := b\<rparr>) = update_quat this"
  by (simp add: update_quat_def)

lemma update_offset_damping: "update_offset (this\<lparr>enableDamping := b\<rparr>) = update_offset this"
  by (simp add: update_offset_def update_quat_damping)

lemma update_angles1_damping:
  "update_theta1 (this\<lparr>enableDamping := b\<rparr>) = update_theta1 this"
  "update_phi1 (this\<lparr>enableDamping := b\<rparr>) = update_phi1 this"
  by (simp_all add: update_theta1_def update_phi1_def update_offset_damping)

lemma update_angles2_damping:
  "update_theta2 (this\<lparr>enableDamping := b\<rparr>) = update_theta2 this"
  "update_phi2 (this\<lparr>enableDamping := b\<rparr>) = update_phi2 this"
  by (simp_all add: update_theta2_def update_phi2_def update_angles1_damping Let_def
      cong: lower.case_cong upper.case_cong if_cong)

lemma update_sph1_damping: "update_sph1 (this\<lparr>enableDamping := b\<rparr>) = update_sph1 this"
  by (simp add: update_sph1_def update_angles2_damping update_offset_damping)

lemma update_target5_damping: "update_target5 (this\<lparr>enableDamping := b\<rparr>) = update_target5 this"
  by (simp add: update_target5_def)

lemma update_sph2_damping: "update_sph2 (this\<lparr>enableDamping := b\<rparr>) = update_sph2 this"
  by (simp add: update_sph2_def update_sph1_damping clampDistance_def)

lemma update_position1_damping:
  "update_position1 (this\<lparr>enableDamping := b\<rparr>) = update_position1 this"
  by (simp add: update_position1_def update_sph2_damping update_target5_damping update_quat_damping)

lemma update_camera1_damping: "update_camera1 (this\<lparr>enableDamping := b\<rparr>) = update_camera1 this"
  by (simp add: update_camera1_def update_position1_damping update_target5_damping)

lemma update_damping:
  "update (this\<lparr>enableDamping := b\<rparr>) = (update this)\<lparr>enableDamping := b\<rparr>"
  by (simp add: update_eq update_camera1_damping update_target5_damping update_sph2_damping)

lemma arithmetic_damping:
  "dispatchEvent (this\<lparr>enableDamping := b\<rparr>) n = (dispatchEvent this n)\<lparr>enableDamping := b\<rparr>"
  "rotateLeft (this\<lparr>enableDamping := b\<rparr>) a = (rotateLeft this a)\<lparr>enableDamping := b\<rparr>"
  "rotateUp (this\<lparr>enableDamping := b\<rparr>) a = (rotateUp this a)\<lparr>enableDamping := b\<rparr>"
  "pan (this\<lparr>enableDamping := b\<rparr>) dX dY = (pan this dX dY)\<lparr>enableDamping := b\<rparr>"
  by (simp_all add: dispatchEvent_def rotateLeft_def rotateUp_def pan_def
      panLeft_def panUp_def Let_def)

lemma mouse_pending_damping:
  "handleMouseMoveRotate_pending (this\<lparr>enableDamping := b\<rparr>) e
     = (handleMouseMoveRotate_pending this e)\<lparr>enableDamping := b\<rparr>"
  "handleMouseMoveDolly_pending (this\<lparr>enableDamping := b\<rparr>) e
     = (handleMouseMoveDolly_pending this e)\<lparr>enableDamping := b\<rparr>"
  "handleMouseMovePan_pending (this\<lparr>enableDamping := b\<rparr>) e
     = (handleMouseMovePan_pending this e)\<lparr>enableDamping := b\<rparr>"
  "handleMouseWheel_pending (this\<lparr>enableDamping := b\<rparr>) w
     = (handleMouseWheel_pending this w)\<lparr>enableDamping := b\<rparr>"
  by (simp_all add: handleMouseMoveRotate_pending_def handleMouseMoveDolly_pending_def
      handleMouseMovePan_pending_def handleMouseWheel_pending_def Let_def rotateLeft_def
      rotateUp_def dollyIn_def dollyOut_def getZoomScale_def pan_def panLeft_def panUp_def)

lemma mouse_move_damping:
  "handleMouseMoveRotate (this\<lparr>enableDamping := b\<rparr>) e = (handleMouseMoveRotate this e)\<lparr>enableDamping := b\<rparr>"
  "handleMouseMoveDolly (this\<lparr>enableDamping := b\<rparr>) e = (handleMouseMoveDolly this e)\<lparr>enableDamping := b\<rparr>"
  "handleMouseMovePan (this\<lparr>enableDamping := b\<rparr>) e = (handleMouseMovePan this e)\<lparr>enableDamping := b\<rparr>"
  "handleMouseWheel (this\<lparr>enableDamping := b\<rparr>) w = (handleMouseWheel this w)\<lparr>enableDamping := b\<rparr>"
  by (simp_all add: handleMouseMoveRotate_def handleMouseMoveDolly_def handleMouseMovePan_def
      handleMouseWheel_def mouse_pending_damping update_damping)

lemma onMouseDown_damping:
  "onMouseDown (this\<lparr>enableDamping := b\<rparr>) e = (onMouseDown this e)\<lparr>enableDamping := b\<rparr>"
  by (simp add: onMouseDown_def Let_def handleMouseDownRotate_def handleMouseDownDolly_def
      handleMouseDownPan_def dispatchEvent_def MOUSE_BUTTONS_LEFT_def MOUSE_BUTTONS_MIDDLE_def
      MOUSE_BUTTONS_RIGHT_def)

lemma onMouseMove_damping:
  "onMouseMove (this\<lparr>enableDamping := b\<rparr>) e = (onMouseMove this e)\<lparr>enableDamping := b\<rparr>"
  by (simp add: onMouseMove_def mouse_move_damping split: STATE.splits)

lemma onMouseWheel_damping:
  "onMouseWheel (this\<lparr>enableDamping := b\<rparr>) w = (onMouseWheel this w)\<lparr>enableDamping := b\<rparr>"
proof -
  have c: "controlActive (dispatchEvent this Start) = controlActive this"
    by (simp add: dispatchEvent_def)
  show ?thesis
    by (simp add: onMouseWheel_def Let_def arithmetic_damping mouse_move_damping c)
qed

lemma onKeyDown_damping:
  "onKeyDown (this\<lparr>enableDamping := b\<rparr>) k = (onKeyDown this k)\<lparr>enableDamping := b\<rparr>"
  by (simp add: onKeyDown_def handleKeyDown_def arithmetic_damping update_damping)

lemma registry_damping:
  "addPointer (this\<lparr>enableDamping := b\<rparr>) event = (addPointer this event)\<lparr>enableDamping := b\<rparr>"
  "removePointer (this\<lparr>enableDamping := b\<rparr>) event = (removePointer this event)\<lparr>enableDamping := b\<rparr>"
  "trackPointer (this\<lparr>enableDamping := b\<rparr>) event = (trackPointer this event)\<lparr>enableDamping := b\<rparr>"
  "isTrackingPointer (this\<lparr>enableDamping := b\<rparr>) event = isTrackingPointer this event"
  "getSecondPointerPosition (this\<lparr>enableDamping := b\<rparr>) event = getSecondPointerPosition this event"
  by (simp_all add: addPointer_def removePointer_def trackPointer_def isTrackingPointer_def
      getSecondPointerPosition_def cong: option.case_cong)

lemma touch_start_damping:
  "handleTouchStartRotate (this\<lparr>enableDamping := b\<rparr>) event = map_sum (\<lambda>e. e) (\<lambda>t. t\<lparr>enableDamping := b\<rparr>) (handleTouchStartRotate this event)"
  "handleTouchStartPan (this\<lparr>enableDamping := b\<rparr>) event = map_sum (\<lambda>e. e) (\<lambda>t. t\<lparr>enableDamping := b\<rparr>) (handleTouchStartPan this event)"
  "handleTouchStartDolly (this\<lparr>enableDamping := b\<rparr>) event = map_sum (\<lambda>e. e) (\<lambda>t. t\<lparr>enableDamping := b\<rparr>) (handleTouchStartDolly this event)"
  by (simp_all add: handleTouchStartRotate_def handleTouchStartPan_def handleTouchStartDolly_def
      registry_damping Let_def split: option.splits)

lemma touch_start2_damping:
  "handleTouchStartDollyPan (this\<lparr>enableDamping := b\<rparr>) event = map_sum (\<lambda>e. e) (\<lambda>t. t\<lparr>enableDamping := b\<rparr>) (handleTouchStartDollyPan this event)"
  "handleTouchStartDollyRotate (this\<lparr>enableDamping := b\<rparr>) event = map_sum (\<lambda>e. e) (\<lambda>t. t\<lparr>enableDamping := b\<rparr>) (handleTouchStartDollyRotate this event)"
  by (cases "handleTouchStartDolly this event";
      simp add: handleTouchStartDollyPan_def handleTouchStartDollyRotate_def touch_start_damping)+

lemma touch_move_damping:
  "handleTouchMoveRotate (this\<lparr>enableDamping := b\<rparr>) event = map_sum (\<lambda>e. e) (\<lambda>t. t\<lparr>enableDamping := b\<rparr>) (handleTouchMoveRotate this event)"
  "handleTouchMovePan (this\<lparr>enableDamping := b\<rparr>) event = map_sum (\<lambda>e. e) (\<lambda>t. t\<lparr>enableDamping := b\<rparr>) (handleTouchMovePan this event)"
  "handleTouchMoveDolly (this\<lparr>enableDamping := b\<rparr>) event = map_sum (\<lambda>e. e) (\<lambda>t. t\<lparr>enableDamping := b\<rparr>) (handleTouchMoveDolly this event)"
  by (simp_all add: handleTouchMoveRotate_def handleTouchMovePan_def handleTouchMoveDolly_def
      registry_damping Let_def rotateLeft_def rotateUp_def pan_def panLeft_def panUp_def
      dollyOut_def split: option.splits)

lemma touch_move2_damping:
  "handleTouchMoveDollyPan (this\<lparr>enableDamping := b\<rparr>) event = map_sum (\<lambda>e. e) (\<lambda>t. t\<lparr>enableDamping := b\<rparr>) (handleTouchMoveDollyPan this event)"
  "handleTouchMoveDollyRotate (this\<lparr>enableDamping := b\<rparr>) event = map_sum (\<lambda>e. e) (\<lambda>t. t\<lparr>enableDamping := b\<rparr>) (handleTouchMoveDollyRotate this event)"
  by (cases "handleTouchMoveDolly this event";
      simp add: handleTouchMoveDollyPan_def handleTouchMoveDollyRotate_def touch_move_damping)+

lemma trackPointer_pointers: "pointers (trackPointer this event) = pointers this"
  by (simp add: trackPointer_def)

lemma onTouchStart_damping:
  "onTouchStart (this\<lparr>enableDamping := b\<rparr>) event = map_sum (\<lambda>e. e) (\<lambda>t. t\<lparr>enableDamping := b\<rparr>) (onTouchStart this event)"
proof -
  let ?t = "trackPointer this event"
  show ?thesis
    by (cases "handleTouchStartRotate ?t event"; cases "handleTouchStartDollyPan ?t event";
        simp add: onTouchStart_def Let_def registry_damping touch_start_damping
          touch_start2_damping TOUCHES_ONE_def TOUCHES_TWO_def dispatchEvent_def
          trackPointer_pointers)
qed

lemma onTouchMove_damping:
  "onTouchMove (this\<lparr>enableDamping := b\<rparr>) event = map_sum (\<lambda>e. e) (\<lambda>t. t\<lparr>enableDamping := b\<rparr>) (onTouchMove this event)"
proof -
  let ?t = "trackPointer this event"
  have s: "state (trackPointer this event) = state this"
    by (simp add: trackPointer_def)
  show ?thesis
    by (cases "handleTouchMoveRotate ?t event"; cases "handleTouchMovePan ?t event";
        cases "handleTouchMoveDollyPan ?t event"; cases "handleTouchMoveDollyRotate ?t event";
        simp add: onTouchMove_def Let_def registry_damping touch_move_damping
          touch_move2_damping update_damping s split: STATE.splits)
qed

lemma listening_damping:
  "(t\<lparr>enableDamping := b\<rparr>)\<lparr>listening := v\<rparr> = (t\<lparr>listening := v\<rparr>)\<lparr>enableDamping := b\<rparr>"
  by simp

lemma onPointerDown_damping:
  "onPointerDown (this\<lparr>enableDamping := b\<rparr>) event = map_sum (\<lambda>e. e) (\<lambda>t. t\<lparr>enableDamping := b\<rparr>) (onPointerDown this event)"
  by (simp add: onPointerDown_def Let_def registry_damping onTouchStart_damping
      onMouseDown_damping listening_damping)

lemma onPointerMove_damping:
  "onPointerMove (this\<lparr>enableDamping := b\<rparr>) event = map_sum (\<lambda>e. e) (\<lambda>t. t\<lparr>enableDamping := b\<rparr>) (onPointerMove this event)"
  by (simp add: onPointerMove_def onTouchMove_damping onMouseMove_damping)

lemma onPointerUp_damping:
  "onPointerUp (this\<lparr>enableDamping := b\<rparr>) event = map_sum (\<lambda>e. e) (\<lambda>t. t\<lparr>enableDamping := b\<rparr>) (onPointerUp this event)"
  by (simp add: onPointerUp_def Let_def registry_damping onTouchStart_damping
      arithmetic_damping listening_damping split: option.splits)

text \<open>
  Claim C10: \<^verbatim>\<open>update\<close>, every input handler and the three accessors give the same
  result whatever \<open>enableDamping\<close> is set to: setting the flag before an operation or after it
  gives the same state, so camera pose, target, spherical state and notifications agree, and an
  operation that throws does so in both cases.
\<close>

theorem C10_enableDamping_independent:
  "update (this\<lparr>enableDamping := b\<rparr>) = (update this)\<lparr>enableDamping := b\<rparr>
   \<and> onPointerDown (this\<lparr>enableDamping := b\<rparr>) pe
       = map_sum (\<lambda>e. e) (\<lambda>t. t\<lparr>enableDamping := b\<rparr>) (onPointerDown this pe)
   \<and> onPointerMove (this\<lparr>enableDamping := b\<rparr>) pe
       = map_sum (\<lambda>e. e) (\<lambda>t. t\<lparr>enableDamping := b\<rparr>) (onPointerMove this pe)
   \<and> onPointerUp (this\<lparr>enableDamping := b\<rparr>) te
       = map_sum (\<lambda>e. e) (\<lambda>t. t\<lparr>enableDamping := b\<rparr>) (onPointerUp this te)
   \<and> onMouseWheel (this\<lparr>enableDamping := b\<rparr>) we = (onMouseWheel this we)\<lparr>enableDamping := b\<rparr>
   \<and> onKeyDown (this\<lparr>enableDamping := b\<rparr>) ke = (onKeyDown this ke)\<lparr>enableDamping := b\<rparr>
   \<and> onContextMenu (this\<lparr>enableDamping := b\<rparr>) pe = (onContextMenu this pe)\<lparr>enableDamping := b\<rparr>
   \<and> getPolarAngle (this\<lparr>enableDamping := b\<rparr>) = getPolarAngle this
   \<and> getAzimuthalAngle (this\<lparr>enableDamping := b\<rparr>) = getAzimuthalAngle this
   \<and> getDistance (this\<lparr>enableDamping := b\<rparr>) = getDistance this"
  by (simp add: update_damping onPointerDown_damping onPointerMove_damping onPointerUp_damping
      onMouseWheel_damping onKeyDown_damping onContextMenu_def getPolarAngle_def
      getAzimuthalAngle_def getDistance_def)

text \<open>The example controller with the flag set, as the demo pages set it.\<close>

theorem C10_enableDamping_independent_witness:
  "update (example_controls\<lparr>enableDamping := Some True\<rparr>)
     = (update example_controls)\<lparr>enableDamping := Some True\<rparr>
   \<and> onPointerDown (example_controls\<lparr>enableDamping := Some True\<rparr>) example_drag
       = map_sum (\<lambda>e. e) (\<lambda>t. t\<lparr>enableDamping := Some True\<rparr>)
           (onPointerDown example_controls example_drag)
   \<and> onPointerUp (c8_controls\<lparr>enableDamping := Some True\<rparr>) c8_move
       = map_sum (\<lambda>e. e) (\<lambda>t. t\<lparr>enableDamping := Some True\<rparr>) (onPointerUp c8_controls c8_move)
   \<and> onMouseWheel (example_controls\<lparr>enableDamping := Some True\<rparr>) example_wheel
       = (onMouseWheel example_controls example_wheel)\<lparr>enableDamping := Some True\<rparr>
   \<and> onKeyDown (example_controls\<lparr>enableDamping := Some True\<rparr>) example_key
       = (onKeyDown example_controls example_key)\<lparr>enableDamping := Some True\<rparr>
   \<and> getDistance (example_controls\<lparr>enableDamping := Some True\<rparr>) = getDistance example_controls"
  using C10_enableDamping_independent [where this = example_controls and b = "Some True"
      and pe = example_drag and te = c9_up and we = example_wheel and ke = example_key]
    C10_enableDamping_independent [where this = c8_controls and b = "Some True"
      and pe = example_drag and te = c8_move and we = example_wheel and ke = example_key]
  by blast
section \<open>Dolly gestures and the distance limits\<close>










text \<open>The two touch steps are what \<^verbatim>\<open>onTouchMove\<close> does in the two-finger states.\<close>

lemma onTouchMove_dolly:
  "state this = TOUCH_DOLLY_PAN \<Longrightarrow>
     onTouchMove this event = dolly_gesture_step this (TouchMoveDollyPan event)"
  "state this = TOUCH_DOLLY_ROTATE \<Longrightarrow>
     onTouchMove this event = dolly_gesture_step this (TouchMoveDollyRotate event)"
  by (simp_all add: onTouchMove_def Let_def trackPointer_keeps)








end
